theory Spec2Isabelle
  imports Main
begin

section \<open>Values of the JavaScript runtime\<close>

text \<open>
  JSON payloads (request bodies, upstream response data, response bodies). Object members
  are kept in source order.
\<close>

datatype json =
    JNull
  | JBool bool
  | JNum int
  | JStr string
  | JArr "json list"
  | JObj "(string \<times> json) list"

text \<open>
  A cookie value or a regular-expression capture is a string or \<^verbatim>\<open>undefined\<close>:
  \<open>None\<close> is \<^verbatim>\<open>undefined\<close>. JavaScript truthiness on such a value: \<^verbatim>\<open>undefined\<close>
  and the empty string are falsy.
\<close>

definition truthy :: "string option \<Rightarrow> bool" where
  "truthy v = (case v of None \<Rightarrow> False | Some s \<Rightarrow> s \<noteq> [])"

text \<open>\<^verbatim>\<open>a || b\<close> on two such values.\<close>

definition js_or :: "string option \<Rightarrow> string option \<Rightarrow> string option" where
  "js_or a b = (if truthy a then a else b)"

text \<open>Interpolation into a template literal: \<^verbatim>\<open>`${v}`\<close>.\<close>

definition js_str :: "string option \<Rightarrow> string" where
  "js_str v = (case v of None \<Rightarrow> ''undefined'' | Some s \<Rightarrow> s)"

fun startsWith :: "string \<Rightarrow> string \<Rightarrow> bool" where
  "startsWith s [] = True"
| "startsWith [] (p # ps) = False"
| "startsWith (c # cs) (p # ps) = (c = p \<and> startsWith cs ps)"

text \<open>
  \<^verbatim>\<open>s.replace(pat, rep)\<close> with a string pattern: the first occurrence of \<open>pat\<close>
  is replaced, the rest of \<open>s\<close> is kept.
\<close>

fun replace_first :: "string \<Rightarrow> string \<Rightarrow> string \<Rightarrow> string" where
  "replace_first pat rep [] = (if pat = [] then rep else [])"
| "replace_first pat rep (c # cs) =
     (if startsWith (c # cs) pat then rep @ drop (length pat) (c # cs)
      else c # replace_first pat rep cs)"

text \<open>
  \<^verbatim>\<open>hdr.match(/NAME=([^;]+)/)?.[1]\<close>, where \<open>key\<close> is the literal \<^verbatim>\<open>NAME=\<close>: the
  leftmost position at which the literal is followed by at least one character other than
  a semicolon; the capture is the longest run of such characters.
\<close>

fun match_capture :: "string \<Rightarrow> string \<Rightarrow> string option" where
  "match_capture key [] = None"
| "match_capture key (c # cs) =
     (let run = takeWhile (\<lambda>x. x \<noteq> CHR '';'') (drop (length key) (c # cs))
      in if startsWith (c # cs) key \<and> run \<noteq> [] then Some run
         else match_capture key cs)"

subsection \<open>Form encoding (\<^verbatim>\<open>URLSearchParams\<close>, \<^verbatim>\<open>URL\<close>)\<close>

definition hex_digit :: "nat \<Rightarrow> char" where
  "hex_digit n = ''0123456789ABCDEF'' ! (n mod 16)"

definition percent_byte :: "char \<Rightarrow> string" where
  "percent_byte c = [CHR ''%'', hex_digit (of_char c div 16), hex_digit (of_char c)]"

definition form_safe :: "char \<Rightarrow> bool" where
  "form_safe c =
     (c \<in> set ''*-._0123456789ABCDEFGHIJKLMNOPQRSTUVWXYZabcdefghijklmnopqrstuvwxyz'')"

definition form_char :: "char \<Rightarrow> string" where
  "form_char c =
     (if c = CHR '' '' then ''+'' else if form_safe c then [c] else percent_byte c)"

definition form_encode :: "string \<Rightarrow> string" where
  "form_encode s = concat (map form_char s)"

fun join_amp :: "string list \<Rightarrow> string" where
  "join_amp [] = []"
| "join_amp [p] = p"
| "join_amp (p # q # ps) = p @ ''&'' @ join_amp (q # ps)"

text \<open>\<^verbatim>\<open>params.toString()\<close> of a \<^verbatim>\<open>URLSearchParams\<close> holding the pairs in order.\<close>

definition URLSearchParams_toString :: "(string \<times> string) list \<Rightarrow> string" where
  "URLSearchParams_toString ps =
     join_amp (map (\<lambda>(k, v). form_encode k @ ''='' @ form_encode v) ps)"

text \<open>
  A \<^verbatim>\<open>URL\<close> object: the normalised address up to the query, the pairs of its
  \<^verbatim>\<open>searchParams\<close>, and the fragment with its \<^verbatim>\<open>#\<close> (empty when there is none).

  \<^verbatim>\<open>new URL(s)\<close> is the platform's parser: it normalises the address (lower-cases the
  host, drops a default port, escapes the path), splits off the query and the fragment, and
  throws on a string that is no absolute URL. It is not written out here; the handler below
  takes it as a parameter of type \<open>string \<Rightarrow> url option\<close>, \<open>None\<close> where it throws.
\<close>

record url =
  url_href :: string
  url_searchParams :: "(string \<times> string) list"
  url_hash :: string

definition searchParams_append :: "string \<Rightarrow> string \<Rightarrow> url \<Rightarrow> url" where
  "searchParams_append k v u = u\<lparr>url_searchParams := url_searchParams u @ [(k, v)]\<rparr>"

text \<open>
  \<^verbatim>\<open>url.toString()\<close> of a URL whose \<^verbatim>\<open>searchParams\<close> have been appended to: the
  query is the serialisation of the whole list, the fragment follows it.
\<close>

definition URL_toString :: "url \<Rightarrow> string" where
  "URL_toString u =
     (if url_searchParams u = [] then url_href u @ url_hash u
      else url_href u @ ''?'' @ URLSearchParams_toString (url_searchParams u) @ url_hash u)"

section \<open>Configuration (src/utils.ts)\<close>

record config =
  KEYCLOAK_URL :: string
  REALM :: string
  CLIENT_ID :: string
  CLIENT_SECRET :: string
  BASE_URL :: string
  API_BASE_URL :: string
  APP_URL :: string
  NODE_ENV :: "string option"

text \<open>\<^verbatim>\<open>process.env.X || 'default'\<close>.\<close>

definition env_or :: "string option \<Rightarrow> string \<Rightarrow> string" where
  "env_or v d = (if truthy v then js_str v else d)"

definition load_config :: "(string \<Rightarrow> string option) \<Rightarrow> config" where
  "load_config process_env =
     \<lparr>KEYCLOAK_URL = env_or (process_env ''KEYCLOAK_URL'') ''http://localhost:8081'',
      REALM = env_or (process_env ''KEYCLOAK_REALM'') ''dumper'',
      CLIENT_ID = env_or (process_env ''KEYCLOAK_CLIENT_ID'') ''nextjs-app'',
      CLIENT_SECRET = env_or (process_env ''KEYCLOAK_CLIENT_SECRET'') ''your-secret'',
      BASE_URL = env_or (process_env ''BASE_URL'') ''http://localhost:4000'',
      API_BASE_URL = env_or (process_env ''API_BASE_URL'') ''http://localhost:8080/api/v1'',
      APP_URL = env_or (process_env ''APP_URL'') ''http://localhost:3000'',
      NODE_ENV = process_env ''NODE_ENV''\<rparr>"

definition REDIRECT_URI :: "config \<Rightarrow> string" where
  "REDIRECT_URI cfg = BASE_URL cfg @ ''/auth/callback''"

definition oidc_endpoint :: "config \<Rightarrow> string \<Rightarrow> string" where
  "oidc_endpoint cfg name =
     KEYCLOAK_URL cfg @ ''/realms/'' @ REALM cfg @ ''/protocol/openid-connect/'' @ name"

section \<open>The Express response object\<close>

record cookie =
  ck_name :: string
  ck_value :: string
  ck_httpOnly :: bool
  ck_secure :: bool
  ck_sameSite :: string
  ck_maxAge :: int
  ck_path :: string

text \<open>
  The response under construction: status (200 until set), the cookie directives written so
  far, the redirect target as handed to \<^verbatim>\<open>res.redirect\<close>, and the JSON body once sent.
\<close>

record res =
  res_statusCode :: nat
  res_cookies :: "cookie list"
  res_location :: "string option"
  res_body :: "json option"

definition res0 :: res where
  "res0 = \<lparr>res_statusCode = 200, res_cookies = [], res_location = None, res_body = None\<rparr>"

definition res_status :: "nat \<Rightarrow> res \<Rightarrow> res" where
  "res_status n r = r\<lparr>res_statusCode := n\<rparr>"

definition res_json :: "json \<Rightarrow> res \<Rightarrow> res" where
  "res_json v r = r\<lparr>res_body := Some v\<rparr>"

definition res_cookie :: "cookie \<Rightarrow> res \<Rightarrow> res" where
  "res_cookie c r = r\<lparr>res_cookies := res_cookies r @ [c]\<rparr>"

text \<open>\<^verbatim>\<open>res.redirect(url)\<close>: status 302 and the target \<open>url\<close>.\<close>

definition res_redirect :: "string \<Rightarrow> res \<Rightarrow> res" where
  "res_redirect u r = r\<lparr>res_statusCode := 302, res_location := Some u\<rparr>"

section \<open>The outside world: backend, identity provider, cache store\<close>

text \<open>
  A rejected axios call carries \<^verbatim>\<open>error.response?.status\<close>: the upstream status when
  the upstream answered outside 2xx, nothing when there was no response at all.
\<close>

datatype axios_error = AxiosError (response_status: "nat option")

datatype redis_error = RedisUnavailable

record axios_config =
  ac_method :: string
  ac_url :: string
  ac_headers :: "(string \<times> string) list"
  ac_data :: json
  ac_params :: "(string \<times> string) list"

text \<open>
  The fields of the token endpoint's answer that the code reads; an answer is taken to
  carry both tokens.
\<close>

record token_data =
  td_access_token :: string
  td_refresh_token :: string
  td_refresh_expires_in :: "int option"

text \<open>
  Every network call of a handler, in the order issued: \<^verbatim>\<open>axios(config)\<close> to the
  backend, \<^verbatim>\<open>axios.get(url, {headers})\<close> to the userinfo endpoint,
  \<^verbatim>\<open>axios.post(url, body, {headers})\<close> to the token endpoint, \<^verbatim>\<open>redis.get(key)\<close> and
  \<^verbatim>\<open>redis.set(key, value, 'EX', seconds)\<close>.
\<close>

datatype event =
    AxiosRequest axios_config
  | AxiosGet string "(string \<times> string) list"
  | AxiosPost string string "(string \<times> string) list"
  | RedisGet string
  | RedisSet string string nat

text \<open>
  The collaborators answer as a function of the state \<open>'w\<close> of the outside world and
  change it. An awaited promise that rejects is \<open>Inl\<close>. \<open>JSON_parse\<close> is \<open>None\<close>
  where \<^verbatim>\<open>JSON.parse\<close> throws.
\<close>

record 'w env =
  axios_request :: "'w \<Rightarrow> axios_config \<Rightarrow> (axios_error + json) \<times> 'w"
  axios_get :: "'w \<Rightarrow> string \<Rightarrow> (string \<times> string) list \<Rightarrow> (axios_error + json) \<times> 'w"
  axios_post ::
    "'w \<Rightarrow> string \<Rightarrow> string \<Rightarrow> (string \<times> string) list \<Rightarrow> (axios_error + token_data) \<times> 'w"
  redis_get :: "'w \<Rightarrow> string \<Rightarrow> (redis_error + string option) \<times> 'w"
  redis_set :: "'w \<Rightarrow> string \<Rightarrow> string \<Rightarrow> nat \<Rightarrow> (redis_error + unit) \<times> 'w"
  JSON_stringify :: "json \<Rightarrow> string"
  JSON_parse :: "string \<Rightarrow> json option"

text \<open>
  What \<^verbatim>\<open>axios\<close> puts on the wire for a config: the serialised \<open>params\<close> are appended
  to the URL, after \<^verbatim>\<open>?\<close>, or after \<^verbatim>\<open>&\<close> when the URL already has a query. The
  serialisation is written as form encoding, with which that of axios agrees on names and
  values made of letters and digits.
\<close>

definition axios_buildURL :: "string \<Rightarrow> (string \<times> string) list \<Rightarrow> string" where
  "axios_buildURL u ps =
     (if ps = [] then u
      else u @ (if CHR ''?'' \<in> set u then ''&'' else ''?'') @ URLSearchParams_toString ps)"

section \<open>Requests\<close>

text \<open>
  The parts of an Express request the handlers read: \<^verbatim>\<open>req.method\<close>,
  \<^verbatim>\<open>req.originalUrl\<close> (path and query string as received), \<^verbatim>\<open>req.query\<close>,
  \<^verbatim>\<open>req.body\<close>, the two cookies as parsed by the cookie middleware, and the raw
  \<^verbatim>\<open>Cookie\<close> header. Cookie values and query values are strings here; the
  middleware's JSON cookies and nested query objects are left out.
\<close>

record request =
  req_method :: string
  req_originalUrl :: string
  req_query :: "(string \<times> string) list"
  req_body :: json
  cookies_access_token :: "string option"
  cookies_refresh_token :: "string option"
  headers_cookie :: "string option"

text \<open>
  A handler run: the response, or \<open>Inl\<close> when the handler throws or its promise rejects
  before sending one; the calls it issued; the world afterwards.
\<close>

datatype rejection = RedisRejected redis_error | JSONSyntaxError | InvalidURL

type_synonym 'w run = "(rejection + res) \<times> event list \<times> 'w"

section \<open>Refreshing tokens (src/utils.ts)\<close>

definition refresh_maxAge :: "int option \<Rightarrow> int" where
  "refresh_maxAge e =
     (case e of None \<Rightarrow> 30 * 24 * 3600 * 1000
      | Some n \<Rightarrow> if n * 1000 = 0 then 30 * 24 * 3600 * 1000 else n * 1000)"

definition token_cookie :: "config \<Rightarrow> string \<Rightarrow> string \<Rightarrow> int \<Rightarrow> cookie" where
  "token_cookie cfg name v age =
     \<lparr>ck_name = name, ck_value = v, ck_httpOnly = True,
      ck_secure = (NODE_ENV cfg = Some ''production''),
      ck_sameSite = ''lax'', ck_maxAge = age, ck_path = ''/''\<rparr>"

definition refresh_form :: "config \<Rightarrow> string \<Rightarrow> (string \<times> string) list" where
  "refresh_form cfg refreshToken =
     [(''grant_type'', ''refresh_token''),
      (''client_id'', CLIENT_ID cfg),
      (''client_secret'', CLIENT_SECRET cfg),
      (''refresh_token'', refreshToken)]"

definition form_headers :: "(string \<times> string) list" where
  "form_headers = [(''Content-Type'', ''application/x-www-form-urlencoded'')]"

definition refresh_call :: "config \<Rightarrow> string \<Rightarrow> event" where
  "refresh_call cfg refreshToken =
     AxiosPost (oidc_endpoint cfg ''token'')
       (URLSearchParams_toString (refresh_form cfg refreshToken)) form_headers"

record tokens =
  access_token :: string
  refresh_token :: string

text \<open>
  \<^verbatim>\<open>refreshTokens(refreshToken, res)\<close>: the new token pair or \<^verbatim>\<open>null\<close>, the response
  object afterwards, the call issued, the world afterwards.
\<close>

definition refreshTokens ::
  "config \<Rightarrow> 'w env \<Rightarrow> 'w \<Rightarrow> string \<Rightarrow> res \<Rightarrow> tokens option \<times> res \<times> event list \<times> 'w"
where
  "refreshTokens cfg env w refreshToken r =
     (case axios_post env w (oidc_endpoint cfg ''token'')
             (URLSearchParams_toString (refresh_form cfg refreshToken)) form_headers of
        (Inr d, w1) \<Rightarrow>
          (Some \<lparr>access_token = td_access_token d, refresh_token = td_refresh_token d\<rparr>,
           res_cookie
             (token_cookie cfg ''refresh_token'' (td_refresh_token d)
                (refresh_maxAge (td_refresh_expires_in d)))
             (res_cookie (token_cookie cfg ''access_token'' (td_access_token d) (3600 * 1000)) r),
           [refresh_call cfg refreshToken], w1)
      | (Inl err, w1) \<Rightarrow> (None, r, [refresh_call cfg refreshToken], w1))"

section \<open>Route handlers\<close>

subsection \<open>\<^verbatim>\<open>GET /auth/login\<close>\<close>

text \<open>
  The handler makes no network call. \<open>new_URL\<close> is the platform's URL parser; where it
  throws, the handler throws before sending anything.
\<close>

definition authUrl :: "(string \<Rightarrow> url option) \<Rightarrow> config \<Rightarrow> url option" where
  "authUrl new_URL cfg =
     (case new_URL (oidc_endpoint cfg ''auth'') of
        None \<Rightarrow> None
      | Some u \<Rightarrow>
          Some (searchParams_append ''scope'' ''openid profile email''
                 (searchParams_append ''response_type'' ''code''
                   (searchParams_append ''redirect_uri'' (REDIRECT_URI cfg)
                     (searchParams_append ''client_id'' (CLIENT_ID cfg) u)))))"

definition auth_login :: "(string \<Rightarrow> url option) \<Rightarrow> config \<Rightarrow> rejection + res" where
  "auth_login new_URL cfg =
     (case authUrl new_URL cfg of
        None \<Rightarrow> Inl InvalidURL
      | Some a \<Rightarrow> Inr (res_redirect (URL_toString a) res0))"

subsection \<open>\<^verbatim>\<open>GET /auth/validate\<close>\<close>

definition not_authenticated :: json where
  "not_authenticated = JObj [(''isAuthenticated'', JBool False)]"

definition authenticated :: "json \<Rightarrow> json" where
  "authenticated user = JObj [(''isAuthenticated'', JBool True), (''user'', user)]"

definition bearer :: "string \<Rightarrow> (string \<times> string) list" where
  "bearer tok = [(''Authorization'', ''Bearer '' @ tok)]"

definition cacheKey :: "string \<Rightarrow> string" where
  "cacheKey tok = ''userinfo:'' @ tok"

definition validate_token :: "request \<Rightarrow> string option" where
  "validate_token req =
     js_or (cookies_access_token req)
       (case headers_cookie req of None \<Rightarrow> None
        | Some h \<Rightarrow> match_capture ''access_token='' h)"

definition validate_refreshToken :: "request \<Rightarrow> string option" where
  "validate_refreshToken req =
     js_or (cookies_refresh_token req)
       (case headers_cookie req of None \<Rightarrow> None
        | Some h \<Rightarrow> match_capture ''refresh_token='' h)"

text \<open>
  One pass through a \<^verbatim>\<open>try\<close> body of the handler: the userinfo call with the given
  token, then the cache write, then the response. \<open>Inl\<close> is the value caught: the
  \<^verbatim>\<open>error.response?.status\<close> of whatever was thrown (a rejected cache write has no
  \<^verbatim>\<open>response\<close>).
\<close>

definition userinfo_attempt ::
  "config \<Rightarrow> 'w env \<Rightarrow> 'w \<Rightarrow> string \<Rightarrow> res \<Rightarrow> (nat option + res) \<times> event list \<times> 'w"
where
  "userinfo_attempt cfg env w tok r =
     (case axios_get env w (oidc_endpoint cfg ''userinfo'') (bearer tok) of
        (Inl err, w1) \<Rightarrow>
          (Inl (response_status err), [AxiosGet (oidc_endpoint cfg ''userinfo'') (bearer tok)], w1)
      | (Inr user, w1) \<Rightarrow>
          (let d = authenticated user;
               tr = [AxiosGet (oidc_endpoint cfg ''userinfo'') (bearer tok),
                     RedisSet (cacheKey tok) (JSON_stringify env d) 300]
           in case redis_set env w1 (cacheKey tok) (JSON_stringify env d) 300 of
                (Inl e, w2) \<Rightarrow> (Inl None, tr, w2)
              | (Inr u, w2) \<Rightarrow> (Inr (res_json d r), tr, w2)))"

definition auth_validate :: "config \<Rightarrow> 'w env \<Rightarrow> 'w \<Rightarrow> request \<Rightarrow> 'w run" where
  "auth_validate cfg env w req =
     (let token = validate_token req;
          refreshToken = validate_refreshToken req
      in if \<not> truthy token
         then (Inr (res_json not_authenticated (res_status 401 res0)), [], w)
         else
           (case redis_get env w (cacheKey (js_str token)) of
              (Inl e, w1) \<Rightarrow> (Inl (RedisRejected e), [RedisGet (cacheKey (js_str token))], w1)
            | (Inr cached, w1) \<Rightarrow>
                if truthy cached
                then (case JSON_parse env (js_str cached) of
                        None \<Rightarrow> (Inl JSONSyntaxError, [RedisGet (cacheKey (js_str token))], w1)
                      | Some v \<Rightarrow>
                          (Inr (res_json v res0), [RedisGet (cacheKey (js_str token))], w1))
                else
                  (case userinfo_attempt cfg env w1 (js_str token) res0 of
                     (Inr r, tr, w2) \<Rightarrow> (Inr r, RedisGet (cacheKey (js_str token)) # tr, w2)
                   | (Inl status, tr, w2) \<Rightarrow>
                       if status = Some 401 \<and> truthy refreshToken
                       then
                         (case refreshTokens cfg env w2 (js_str refreshToken) res0 of
                            (None, r1, tr1, w3) \<Rightarrow>
                              (Inr (res_json not_authenticated (res_status 401 r1)),
                               RedisGet (cacheKey (js_str token)) # tr @ tr1, w3)
                          | (Some toks, r1, tr1, w3) \<Rightarrow>
                              (case userinfo_attempt cfg env w3 (access_token toks) r1 of
                                 (Inr r2, tr2, w4) \<Rightarrow>
                                   (Inr r2, RedisGet (cacheKey (js_str token)) # tr @ tr1 @ tr2, w4)
                               | (Inl retryError, tr2, w4) \<Rightarrow>
                                   (Inr (res_json not_authenticated (res_status 401 r1)),
                                    RedisGet (cacheKey (js_str token)) # tr @ tr1 @ tr2, w4)))
                       else
                         (Inr (res_json not_authenticated (res_status 401 res0)),
                          RedisGet (cacheKey (js_str token)) # tr, w2))))"

subsection \<open>\<^verbatim>\<open>ALL /api/v1\<close>\<close>

definition unauthorized :: json where
  "unauthorized = JObj [(''error'', JStr ''Unauthorized'')]"

definition api_error :: json where
  "api_error = JObj [(''error'', JStr ''API error'')]"

definition apiPath :: "request \<Rightarrow> string" where
  "apiPath req =
     (let p = replace_first ''/api/v1'' [] (req_originalUrl req)
      in if p = [] then [] else p)"

definition proxy_config :: "config \<Rightarrow> request \<Rightarrow> string \<Rightarrow> axios_config" where
  "proxy_config cfg req tok =
     \<lparr>ac_method = req_method req,
      ac_url = API_BASE_URL cfg @ apiPath req,
      ac_headers = [(''Authorization'', ''Bearer '' @ tok), (''Content-Type'', ''application/json'')],
      ac_data = req_body req,
      ac_params = req_query req\<rparr>"

text \<open>\<^verbatim>\<open>error.response?.status || 500\<close>.\<close>

definition status_or_500 :: "axios_error \<Rightarrow> nat" where
  "status_or_500 err =
     (case response_status err of None \<Rightarrow> 500 | Some s \<Rightarrow> if s = 0 then 500 else s)"

definition api_v1 :: "config \<Rightarrow> 'w env \<Rightarrow> 'w \<Rightarrow> request \<Rightarrow> 'w run" where
  "api_v1 cfg env w req =
     (let token = cookies_access_token req;
          refreshToken = cookies_refresh_token req
      in if \<not> truthy token
         then (Inr (res_json unauthorized (res_status 401 res0)), [], w)
         else
           (case axios_request env w (proxy_config cfg req (js_str token)) of
              (Inr d, w1) \<Rightarrow>
                (Inr (res_json d res0), [AxiosRequest (proxy_config cfg req (js_str token))], w1)
            | (Inl err, w1) \<Rightarrow>
                if response_status err = Some 401 \<and> truthy refreshToken
                then
                  (case refreshTokens cfg env w1 (js_str refreshToken) res0 of
                     (None, r1, tr1, w2) \<Rightarrow>
                       (Inr (res_json unauthorized (res_status 401 r1)),
                        AxiosRequest (proxy_config cfg req (js_str token)) # tr1, w2)
                   | (Some toks, r1, tr1, w2) \<Rightarrow>
                       (case axios_request env w2 (proxy_config cfg req (access_token toks)) of
                          (Inr d, w3) \<Rightarrow>
                            (Inr (res_json d r1),
                             AxiosRequest (proxy_config cfg req (js_str token)) # tr1 @
                               [AxiosRequest (proxy_config cfg req (access_token toks))], w3)
                        | (Inl retryError, w3) \<Rightarrow>
                            (Inr (res_json unauthorized (res_status 401 r1)),
                             AxiosRequest (proxy_config cfg req (js_str token)) # tr1 @
                               [AxiosRequest (proxy_config cfg req (access_token toks))], w3)))
                else
                  (Inr (res_json api_error (res_status (status_or_500 err) res0)),
                   [AxiosRequest (proxy_config cfg req (js_str token))], w1)))"

section \<open>Observing a run\<close>

definition calls :: "'w run \<Rightarrow> event list" where
  "calls run = fst (snd run)"

definition world_after :: "'w run \<Rightarrow> 'w" where
  "world_after run = snd (snd run)"

text \<open>The HTTP status sent, the body sent and the cookies written, when a response is sent.\<close>

definition status_of :: "'w run \<Rightarrow> nat option" where
  "status_of run = (case fst run of Inl e \<Rightarrow> None | Inr r \<Rightarrow> Some (res_statusCode r))"

definition body_of :: "'w run \<Rightarrow> json option" where
  "body_of run = (case fst run of Inl e \<Rightarrow> None | Inr r \<Rightarrow> res_body r)"

definition cookies_of :: "'w run \<Rightarrow> cookie list" where
  "cookies_of run = (case fst run of Inl e \<Rightarrow> [] | Inr r \<Rightarrow> res_cookies r)"

fun is_backend_call :: "event \<Rightarrow> bool" where
  "is_backend_call (AxiosRequest c) = True"
| "is_backend_call e = False"

fun is_userinfo_call :: "event \<Rightarrow> bool" where
  "is_userinfo_call (AxiosGet u hs) = True"
| "is_userinfo_call e = False"

fun is_refresh_call :: "event \<Rightarrow> bool" where
  "is_refresh_call (AxiosPost u b hs) = True"
| "is_refresh_call e = False"

text \<open>The keys looked up in the cache store, in order.\<close>

fun cache_reads :: "event list \<Rightarrow> string list" where
  "cache_reads [] = []"
| "cache_reads (RedisGet k # tr) = k # cache_reads tr"
| "cache_reads (e # tr) = cache_reads tr"

definition backend_calls :: "event list \<Rightarrow> nat" where
  "backend_calls tr = length (filter is_backend_call tr)"

definition userinfo_calls :: "event list \<Rightarrow> nat" where
  "userinfo_calls tr = length (filter is_userinfo_call tr)"

definition refresh_calls :: "event list \<Rightarrow> nat" where
  "refresh_calls tr = length (filter is_refresh_call tr)"

section \<open>A simulated world\<close>

text \<open>
  One concrete outside world, for running the handlers on examples: a backend and an
  identity provider that answer by bearer token (401 for a token they do not know), a token
  endpoint that answers by refresh token (400 otherwise), and a cache store that is either
  unreachable (every command rejects) or a key-value store with expiry times in seconds.
\<close>

record sim =
  sim_api :: "(string \<times> (axios_error + json)) list"
  sim_identities :: "(string \<times> json) list"
  sim_refresh :: "(string \<times> token_data) list"
  sim_redis_up :: bool
  sim_now :: nat
  sim_store :: "(string \<times> string \<times> nat) list"

definition sim_request :: "sim \<Rightarrow> axios_config \<Rightarrow> (axios_error + json) \<times> sim" where
  "sim_request w c =
     (case find (\<lambda>(t, a). (''Authorization'', ''Bearer '' @ t) \<in> set (ac_headers c)) (sim_api w) of
        None \<Rightarrow> (Inl (AxiosError (Some 401)), w)
      | Some (t, a) \<Rightarrow> (a, w))"

definition sim_get :: "sim \<Rightarrow> string \<Rightarrow> (string \<times> string) list \<Rightarrow> (axios_error + json) \<times> sim" where
  "sim_get w u hs =
     (case find (\<lambda>(t, i). bearer t = hs) (sim_identities w) of
        None \<Rightarrow> (Inl (AxiosError (Some 401)), w)
      | Some (t, i) \<Rightarrow> (Inr i, w))"

definition sim_post ::
  "config \<Rightarrow> sim \<Rightarrow> string \<Rightarrow> string \<Rightarrow> (string \<times> string) list \<Rightarrow> (axios_error + token_data) \<times> sim"
where
  "sim_post cfg w u b hs =
     (case find (\<lambda>(rt, d). URLSearchParams_toString (refresh_form cfg rt) = b) (sim_refresh w) of
        None \<Rightarrow> (Inl (AxiosError (Some 400)), w)
      | Some (rt, d) \<Rightarrow> (Inr d, w))"

definition store_get :: "sim \<Rightarrow> string \<Rightarrow> string option" where
  "store_get w k =
     (case map_of (sim_store w) k of
        None \<Rightarrow> None
      | Some (v, expires) \<Rightarrow> if sim_now w < expires then Some v else None)"

definition store_set :: "sim \<Rightarrow> string \<Rightarrow> string \<Rightarrow> nat \<Rightarrow> sim" where
  "store_set w k v ttl = w\<lparr>sim_store := (k, v, sim_now w + ttl) # sim_store w\<rparr>"

definition sim_redis_get :: "sim \<Rightarrow> string \<Rightarrow> (redis_error + string option) \<times> sim" where
  "sim_redis_get w k =
     (if sim_redis_up w then (Inr (store_get w k), w) else (Inl RedisUnavailable, w))"

definition sim_redis_set :: "sim \<Rightarrow> string \<Rightarrow> string \<Rightarrow> nat \<Rightarrow> (redis_error + unit) \<times> sim" where
  "sim_redis_set w k v ttl =
     (if sim_redis_up w then (Inr (), store_set w k v ttl) else (Inl RedisUnavailable, w))"

text \<open>A JSON codec on the one payload the examples cache.\<close>

definition u1 :: json where
  "u1 = JObj [(''sub'', JStr ''u1'')]"

definition sim_stringify :: "json \<Rightarrow> string" where
  "sim_stringify j =
     (if j = authenticated u1 then ''{isAuthenticated:true,user:{sub:u1}}'' else ''null'')"

definition sim_parse :: "string \<Rightarrow> json option" where
  "sim_parse s =
     (if s = ''{isAuthenticated:true,user:{sub:u1}}'' then Some (authenticated u1)
      else if s = ''null'' then Some JNull else None)"

definition sim_env :: "config \<Rightarrow> sim env" where
  "sim_env cfg =
     \<lparr>axios_request = sim_request, axios_get = sim_get, axios_post = sim_post cfg,
      redis_get = sim_redis_get, redis_set = sim_redis_set,
      JSON_stringify = sim_stringify, JSON_parse = sim_parse\<rparr>"

definition cfg0 :: config where
  "cfg0 = load_config (\<lambda>name. None)"

definition AT2 :: token_data where
  "AT2 = \<lparr>td_access_token = ''AT2'', td_refresh_token = ''RT2'',
          td_refresh_expires_in = Some 2592000\<rparr>"

text \<open>
  The world of the examples: the backend and the provider accept \<open>AT2\<close> only, the token
  endpoint exchanges \<open>RT1\<close> for \<open>AT2\<close>, the cache is reachable and empty.
\<close>

definition world0 :: sim where
  "world0 =
     \<lparr>sim_api = [(''AT2'', Inr (JArr []))],
      sim_identities = [(''AT2'', u1)],
      sim_refresh = [(''RT1'', AT2)],
      sim_redis_up = True, sim_now = 1000, sim_store = []\<rparr>"

text \<open>The same world with a backend and a provider that know no token at all.\<close>

definition world1 :: sim where
  "world1 = world0\<lparr>sim_api := [], sim_identities := []\<rparr>"

text \<open>The first world with a provider and a backend that accept \<open>AT1\<close>.\<close>

definition world2 :: sim where
  "world2 = world0\<lparr>sim_api := [(''AT1'', Inr (JArr []))], sim_identities := [(''AT1'', u1)]\<rparr>"

text \<open>The first world with a backend that answers 503 to \<open>AT2\<close>.\<close>

definition world3 :: sim where
  "world3 = world0\<lparr>sim_api := [(''AT2'', Inl (AxiosError (Some 503)))]\<rparr>"

text \<open>An environment whose cache store rejects every write.\<close>

definition no_set_env :: "config \<Rightarrow> sim env" where
  "no_set_env cfg = (sim_env cfg)\<lparr>redis_set := (\<lambda>w k v ttl. (Inl RedisUnavailable, w))\<rparr>"

definition get_projects :: request where
  "get_projects =
     \<lparr>req_method = ''GET'', req_originalUrl = ''/api/v1/projects?limit=10'',
      req_query = [(''limit'', ''10'')], req_body = JObj [],
      cookies_access_token = Some ''AT1'', cookies_refresh_token = Some ''RT1'',
      headers_cookie = Some ''access_token=AT1; refresh_token=RT1''\<rparr>"

definition get_validate :: request where
  "get_validate =
     \<lparr>req_method = ''GET'', req_originalUrl = ''/auth/validate'',
      req_query = [], req_body = JObj [],
      cookies_access_token = Some ''AT1'', cookies_refresh_token = Some ''RT1'',
      headers_cookie = Some ''access_token=AT1; refresh_token=RT1''\<rparr>"

text \<open>
  The world left by a validation request in \<open>world2\<close>, once the provider has revoked
  every token and the clock shows \<open>t\<close>.
\<close>

definition revoked_at :: "nat \<Rightarrow> sim" where
  "revoked_at t =
     (world_after (auth_validate cfg0 (sim_env cfg0) world2 get_validate))
       \<lparr>sim_identities := [], sim_now := t\<rparr>"

text \<open>
  A request without \<^verbatim>\<open>access_token\<close> cookie whose \<^verbatim>\<open>Cookie\<close> header carries a cookie
  of another name that ends in \<^verbatim>\<open>access_token\<close>.
\<close>

definition other_cookie :: request where
  "other_cookie =
     \<lparr>req_method = ''GET'', req_originalUrl = ''/auth/validate'',
      req_query = [], req_body = JObj [],
      cookies_access_token = None, cookies_refresh_token = None,
      headers_cookie = Some ''xaccess_token=AT1''\<rparr>"

text \<open>
  The URL parser on the addresses the examples use. The first is the authorization endpoint
  of the default configuration, which is in normal form already; the second has the default
  port of its scheme, which the parser drops. The examples use one more address,
  \<^verbatim>\<open>localhost/realms/dumper/protocol/openid-connect/auth\<close>, which has no scheme and on
  which the parser throws; it falls under the last case.
\<close>

definition example_new_URL :: "string \<Rightarrow> url option" where
  "example_new_URL s =
     (if s = ''http://localhost:8081/realms/dumper/protocol/openid-connect/auth''
      then Some \<lparr>url_href = s, url_searchParams = [], url_hash = []\<rparr>
      else if s = ''https://auth.example.com:443/realms/dumper/protocol/openid-connect/auth''
      then Some \<lparr>url_href = ''https://auth.example.com/realms/dumper/protocol/openid-connect/auth'',
                 url_searchParams = [], url_hash = []\<rparr>
      else None)"

definition cfg443 :: config where
  "cfg443 = cfg0\<lparr>KEYCLOAK_URL := ''https://auth.example.com:443''\<rparr>"

definition cfg_schemeless :: config where
  "cfg_schemeless = cfg0\<lparr>KEYCLOAK_URL := ''localhost''\<rparr>"

definition without_refresh :: "request \<Rightarrow> request" where
  "without_refresh req = req\<lparr>cookies_refresh_token := None\<rparr>"

definition anonymous :: "request \<Rightarrow> request" where
  "anonymous req =
     req\<lparr>cookies_access_token := None, cookies_refresh_token := None, headers_cookie := None\<rparr>"

section \<open>Requests without an access token\<close>

lemmas sim_defs = sim_env_def sim_request_def sim_get_def sim_post_def sim_redis_get_def
  sim_redis_set_def store_get_def store_set_def sim_stringify_def sim_parse_def
  world0_def world1_def world2_def world3_def no_set_env_def revoked_at_def world_after_def

lemmas res_defs = res0_def res_status_def res_json_def res_cookie_def res_redirect_def

lemmas form_defs = URLSearchParams_toString_def form_encode_def form_char_def form_safe_def
  percent_byte_def hex_digit_def

lemma truthy_Some [simp]: "truthy (Some s) = (s \<noteq> [])"
  by (simp add: truthy_def)

lemma truthy_None [simp]: "truthy None = False"
  by (simp add: truthy_def)

text \<open>
  What the validation endpoint takes for the access token is empty exactly when the
  \<^verbatim>\<open>access_token\<close> cookie is missing or empty and the raw \<^verbatim>\<open>Cookie\<close> header, if there
  is one, has no occurrence of \<^verbatim>\<open>access_token=\<close> followed by a character other than a
  semicolon. The occurrence need not start a cookie name.
\<close>

lemma match_capture_nonempty: "match_capture key h = Some r \<Longrightarrow> r \<noteq> []"
  by (induction h) (auto simp: Let_def split: if_splits)

lemma validate_token_falsy:
  "(\<not> truthy (validate_token req)) =
     (\<not> truthy (cookies_access_token req) \<and>
      (case headers_cookie req of None \<Rightarrow> None
       | Some h \<Rightarrow> match_capture ''access_token='' h) = None)"
proof (cases "headers_cookie req")
  case None
  then show ?thesis
    by (simp add: validate_token_def js_or_def)
next
  case (Some h)
  show ?thesis
  proof (cases "match_capture ''access_token='' h")
    case None
    with Some show ?thesis
      by (simp add: validate_token_def js_or_def)
  next
    case (Some r)
    with \<open>headers_cookie req = Some h\<close> match_capture_nonempty [OF Some] show ?thesis
      by (simp add: validate_token_def js_or_def)
  qed
qed

text \<open>
  C3, as stated, fails for the validation endpoint: a request without \<^verbatim>\<open>access_token\<close>
  cookie whose \<^verbatim>\<open>Cookie\<close> header is \<^verbatim>\<open>xaccess_token=AT1\<close> is not answered 401. The
  handler takes \<open>AT1\<close> from the raw header, asks the cache and the provider, and answers
  200.
\<close>

theorem validate_without_cookie_counterexample:
  "cookies_access_token other_cookie = None \<and>
   validate_token other_cookie = Some ''AT1'' \<and>
   status_of (auth_validate cfg0 (sim_env cfg0) world2 other_cookie) = Some 200 \<and>
   calls (auth_validate cfg0 (sim_env cfg0) world2 other_cookie) =
     [RedisGet ''userinfo:AT1'',
      AxiosGet ''http://localhost:8081/realms/dumper/protocol/openid-connect/userinfo''
        [(''Authorization'', ''Bearer AT1'')],
      RedisSet ''userinfo:AT1'' ''{isAuthenticated:true,user:{sub:u1}}'' 300]"
  by (simp add: auth_validate_def Let_def validate_token_def validate_refreshToken_def js_or_def
      js_str_def other_cookie_def userinfo_attempt_def sim_defs bearer_def cacheKey_def res_defs
      status_of_def calls_def oidc_endpoint_def cfg0_def load_config_def env_or_def)

text \<open>
  C3, amended. A request from which the handler obtains no access token is answered 401 at
  once, and no call goes to the backend, the identity provider or the cache: the list of
  calls is empty and the outside world is as it was. For the proxy such a request is one
  whose \<^verbatim>\<open>access_token\<close> cookie is missing or empty. For the validation endpoint it is
  one whose \<^verbatim>\<open>access_token\<close> cookie is missing or empty and whose raw \<^verbatim>\<open>Cookie\<close>
  header yields no token to the handler's fallback match either.
\<close>

theorem no_token_no_upstream_call:
  "(\<not> truthy (cookies_access_token req) \<longrightarrow>
      api_v1 cfg env w req =
        (Inr \<lparr>res_statusCode = 401, res_cookies = [], res_location = None,
              res_body = Some (JObj [(''error'', JStr ''Unauthorized'')])\<rparr>, [], w)) \<and>
   (\<not> truthy (validate_token req) \<longrightarrow>
      auth_validate cfg env w req =
        (Inr \<lparr>res_statusCode = 401, res_cookies = [], res_location = None,
              res_body = Some (JObj [(''isAuthenticated'', JBool False)])\<rparr>, [], w))"
  by (simp add: api_v1_def auth_validate_def res0_def res_status_def res_json_def
      unauthorized_def not_authenticated_def)

theorem no_token_no_upstream_call_witness:
  "\<not> truthy (cookies_access_token (anonymous get_projects)) \<and>
   \<not> truthy (validate_token (anonymous get_validate)) \<and>
   snd (api_v1 cfg0 (sim_env cfg0) world0 (anonymous get_projects)) = ([], world0) \<and>
   snd (auth_validate cfg0 (sim_env cfg0) world0 (anonymous get_validate)) = ([], world0)"
proof -
  have a: "\<not> truthy (cookies_access_token (anonymous get_projects))"
    by (simp add: anonymous_def get_projects_def)
  have b: "\<not> truthy (validate_token (anonymous get_validate))"
    by (simp add: anonymous_def get_validate_def validate_token_def js_or_def)
  show ?thesis
    using a b
      no_token_no_upstream_call [where req = "anonymous get_projects" and cfg = cfg0
        and env = "sim_env cfg0" and w = world0]
      no_token_no_upstream_call [where req = "anonymous get_validate" and cfg = cfg0
        and env = "sim_env cfg0" and w = world0]
    by simp
qed

section \<open>Refresh once, retry once\<close>

lemma refreshTokens_ok:
  "axios_post env w (oidc_endpoint cfg ''token'')
      (URLSearchParams_toString (refresh_form cfg rt)) form_headers = (Inr d, w2) \<Longrightarrow>
   refreshTokens cfg env w rt r =
     (Some \<lparr>access_token = td_access_token d, refresh_token = td_refresh_token d\<rparr>,
      res_cookie (token_cookie cfg ''refresh_token'' (td_refresh_token d)
                (refresh_maxAge (td_refresh_expires_in d)))
             (res_cookie (token_cookie cfg ''access_token'' (td_access_token d) (3600 * 1000)) r),
      [refresh_call cfg rt], w2)"
  by (simp add: refreshTokens_def)

lemma userinfo_attempt_rejected:
  "axios_get env w (oidc_endpoint cfg ''userinfo'') (bearer tok) = (Inl err, w1) \<Longrightarrow>
   userinfo_attempt cfg env w tok r =
     (Inl (response_status err), [AxiosGet (oidc_endpoint cfg ''userinfo'') (bearer tok)], w1)"
  by (simp add: userinfo_attempt_def)

lemma userinfo_attempt_calls:
  "fst (snd (userinfo_attempt cfg env w tok r)) =
     (case fst (axios_get env w (oidc_endpoint cfg ''userinfo'') (bearer tok)) of
        Inl err \<Rightarrow> [AxiosGet (oidc_endpoint cfg ''userinfo'') (bearer tok)]
      | Inr user \<Rightarrow>
          [AxiosGet (oidc_endpoint cfg ''userinfo'') (bearer tok),
           RedisSet (cacheKey tok) (JSON_stringify env (authenticated user)) 300])"
  by (simp add: userinfo_attempt_def Let_def split: prod.splits sum.splits)

lemma userinfo_attempt_status:
  "userinfo_attempt cfg env w tok r = (Inr r', tr, w') \<Longrightarrow> res_statusCode r' = res_statusCode r"
  by (auto simp: userinfo_attempt_def Let_def res_json_def split: prod.splits sum.splits)

lemma proxy_part:
  assumes "cookies_access_token req = Some tok" "tok \<noteq> []"
    "cookies_refresh_token req = Some rt" "rt \<noteq> []"
    "axios_request env w (proxy_config cfg req tok) = (Inl (AxiosError (Some 401)), w1)"
    "axios_post env w1 (oidc_endpoint cfg ''token'')
        (URLSearchParams_toString (refresh_form cfg rt)) form_headers = (Inr d, w2)"
  shows "calls (api_v1 cfg env w req) =
        [AxiosRequest (proxy_config cfg req tok), refresh_call cfg rt,
         AxiosRequest (proxy_config cfg req (td_access_token d))]"
   and "status_of (api_v1 cfg env w req) =
        (case fst (axios_request env w2 (proxy_config cfg req (td_access_token d))) of
           Inl retryError \<Rightarrow> Some 401 | Inr v \<Rightarrow> Some 200)"
  using assms
  by (auto simp: api_v1_def Let_def calls_def status_of_def js_str_def refreshTokens_ok
       res_status_def res_json_def res_cookie_def res0_def split: prod.splits sum.splits)

lemma validate_part:
  assumes "validate_token req = Some tok" "tok \<noteq> []"
    "validate_refreshToken req = Some rt" "rt \<noteq> []"
    "redis_get env w (cacheKey tok) = (Inr cached, w1)" "\<not> truthy cached"
    "axios_get env w1 (oidc_endpoint cfg ''userinfo'') (bearer tok) =
       (Inl (AxiosError (Some 401)), w2)"
    "axios_post env w2 (oidc_endpoint cfg ''token'')
        (URLSearchParams_toString (refresh_form cfg rt)) form_headers = (Inr d, w3)"
  shows "calls (auth_validate cfg env w req) =
        [RedisGet (cacheKey tok), AxiosGet (oidc_endpoint cfg ''userinfo'') (bearer tok),
         refresh_call cfg rt] @
        (case fst (axios_get env w3 (oidc_endpoint cfg ''userinfo'') (bearer (td_access_token d))) of
           Inl err \<Rightarrow> [AxiosGet (oidc_endpoint cfg ''userinfo'') (bearer (td_access_token d))]
         | Inr user \<Rightarrow>
             [AxiosGet (oidc_endpoint cfg ''userinfo'') (bearer (td_access_token d)),
              RedisSet (cacheKey (td_access_token d))
                (JSON_stringify env (authenticated user)) 300])"
   and "fst (axios_get env w3 (oidc_endpoint cfg ''userinfo'') (bearer (td_access_token d))) = Inl e
        \<Longrightarrow> status_of (auth_validate cfg env w req) = Some 401"
proof -
  let ?a = "userinfo_attempt cfg env w3 (td_access_token d)
     (res_cookie (token_cookie cfg ''refresh_token'' (td_refresh_token d)
                (refresh_maxAge (td_refresh_expires_in d)))
             (res_cookie (token_cookie cfg ''access_token'' (td_access_token d) (3600 * 1000)) res0))"
  obtain x tr2 w4 where a: "?a = (x, tr2, w4)"
    by (cases ?a) auto
  have tr2: "tr2 = (case fst (axios_get env w3 (oidc_endpoint cfg ''userinfo'') (bearer (td_access_token d))) of
           Inl err \<Rightarrow> [AxiosGet (oidc_endpoint cfg ''userinfo'') (bearer (td_access_token d))]
         | Inr user \<Rightarrow>
             [AxiosGet (oidc_endpoint cfg ''userinfo'') (bearer (td_access_token d)),
              RedisSet (cacheKey (td_access_token d))
                (JSON_stringify env (authenticated user)) 300])"
    using userinfo_attempt_calls [of cfg env w3 "td_access_token d"] a
    by (metis fst_conv snd_conv)
  have run: "auth_validate cfg env w req =
     (case x of Inr r2 \<Rightarrow> Inr r2 
        | Inl retryError \<Rightarrow> Inr (res_json not_authenticated (res_status 401 (res_cookie (token_cookie cfg ''refresh_token'' (td_refresh_token d)
                (refresh_maxAge (td_refresh_expires_in d)))
             (res_cookie (token_cookie cfg ''access_token'' (td_access_token d) (3600 * 1000)) res0)))),
      [RedisGet (cacheKey tok), AxiosGet (oidc_endpoint cfg ''userinfo'') (bearer tok),
         refresh_call cfg rt] @ tr2, w4)"
    using assms a
    by (simp add: auth_validate_def Let_def js_str_def userinfo_attempt_rejected
        refreshTokens_ok split: sum.splits)
  show "calls (auth_validate cfg env w req) =
        [RedisGet (cacheKey tok), AxiosGet (oidc_endpoint cfg ''userinfo'') (bearer tok),
         refresh_call cfg rt] @
        (case fst (axios_get env w3 (oidc_endpoint cfg ''userinfo'') (bearer (td_access_token d))) of
           Inl err \<Rightarrow> [AxiosGet (oidc_endpoint cfg ''userinfo'') (bearer (td_access_token d))]
         | Inr user \<Rightarrow>
             [AxiosGet (oidc_endpoint cfg ''userinfo'') (bearer (td_access_token d)),
              RedisSet (cacheKey (td_access_token d))
                (JSON_stringify env (authenticated user)) 300])"
    unfolding run calls_def using tr2 by simp
  assume "fst (axios_get env w3 (oidc_endpoint cfg ''userinfo'') (bearer (td_access_token d))) = Inl e"
  then have "\<exists>s. x = Inl s"
    using a by (auto simp: userinfo_attempt_def split: prod.splits sum.splits)
  then show "status_of (auth_validate cfg env w req) = Some 401"
    unfolding run by (auto simp: status_of_def res_json_def res_status_def)
qed


lemma proxy_retry_run:
  assumes "cookies_access_token req = Some tok" "tok \<noteq> []"
    "cookies_refresh_token req = Some rt" "rt \<noteq> []"
    "axios_request env w (proxy_config cfg req tok) = (Inl (AxiosError (Some 401)), w1)"
    "axios_post env w1 (oidc_endpoint cfg ''token'')
        (URLSearchParams_toString (refresh_form cfg rt)) form_headers = (Inr d, w2)"
  shows "api_v1 cfg env w req =
     (case axios_request env w2 (proxy_config cfg req (td_access_token d)) of
        (Inr payload, w3) \<Rightarrow>
          (Inr \<lparr>res_statusCode = 200,
                res_cookies =
                  [token_cookie cfg ''access_token'' (td_access_token d) (3600 * 1000),
                   token_cookie cfg ''refresh_token'' (td_refresh_token d)
                     (refresh_maxAge (td_refresh_expires_in d))],
                res_location = None, res_body = Some payload\<rparr>,
           [AxiosRequest (proxy_config cfg req tok), refresh_call cfg rt,
            AxiosRequest (proxy_config cfg req (td_access_token d))], w3)
      | (Inl retryError, w3) \<Rightarrow>
          (Inr \<lparr>res_statusCode = 401,
                res_cookies =
                  [token_cookie cfg ''access_token'' (td_access_token d) (3600 * 1000),
                   token_cookie cfg ''refresh_token'' (td_refresh_token d)
                     (refresh_maxAge (td_refresh_expires_in d))],
                res_location = None,
                res_body = Some (JObj [(''error'', JStr ''Unauthorized'')])\<rparr>,
           [AxiosRequest (proxy_config cfg req tok), refresh_call cfg rt,
            AxiosRequest (proxy_config cfg req (td_access_token d))], w3))"
  using assms
  by (simp add: api_v1_def Let_def js_str_def refreshTokens_ok res_defs unauthorized_def
      split: prod.splits sum.splits)

lemma validate_retry_run:
  assumes "validate_token req = Some tok" "tok \<noteq> []"
    "validate_refreshToken req = Some rt" "rt \<noteq> []"
    "redis_get env w (cacheKey tok) = (Inr cached, v1)" "\<not> truthy cached"
    "axios_get env v1 (oidc_endpoint cfg ''userinfo'') (bearer tok) =
       (Inl (AxiosError (Some 401)), v2)"
    "axios_post env v2 (oidc_endpoint cfg ''token'')
        (URLSearchParams_toString (refresh_form cfg rt)) form_headers = (Inr d, v3)"
  shows "auth_validate cfg env w req =
     (case axios_get env v3 (oidc_endpoint cfg ''userinfo'') (bearer (td_access_token d)) of
        (Inl retryError, v4) \<Rightarrow>
          (Inr \<lparr>res_statusCode = 401,
                res_cookies =
                  [token_cookie cfg ''access_token'' (td_access_token d) (3600 * 1000),
                   token_cookie cfg ''refresh_token'' (td_refresh_token d)
                     (refresh_maxAge (td_refresh_expires_in d))],
                res_location = None,
                res_body = Some (JObj [(''isAuthenticated'', JBool False)])\<rparr>,
           [RedisGet (cacheKey tok), AxiosGet (oidc_endpoint cfg ''userinfo'') (bearer tok),
            refresh_call cfg rt,
            AxiosGet (oidc_endpoint cfg ''userinfo'') (bearer (td_access_token d))], v4)
      | (Inr user, v4) \<Rightarrow>
          (case redis_set env v4 (cacheKey (td_access_token d))
                  (JSON_stringify env (authenticated user)) 300 of
             (Inl e, v5) \<Rightarrow>
               (Inr \<lparr>res_statusCode = 401,
                     res_cookies =
                       [token_cookie cfg ''access_token'' (td_access_token d) (3600 * 1000),
                        token_cookie cfg ''refresh_token'' (td_refresh_token d)
                          (refresh_maxAge (td_refresh_expires_in d))],
                     res_location = None,
                     res_body = Some (JObj [(''isAuthenticated'', JBool False)])\<rparr>,
                [RedisGet (cacheKey tok), AxiosGet (oidc_endpoint cfg ''userinfo'') (bearer tok),
                 refresh_call cfg rt,
                 AxiosGet (oidc_endpoint cfg ''userinfo'') (bearer (td_access_token d)),
                 RedisSet (cacheKey (td_access_token d))
                   (JSON_stringify env (authenticated user)) 300], v5)
           | (Inr done, v5) \<Rightarrow>
               (Inr \<lparr>res_statusCode = 200,
                     res_cookies =
                       [token_cookie cfg ''access_token'' (td_access_token d) (3600 * 1000),
                        token_cookie cfg ''refresh_token'' (td_refresh_token d)
                          (refresh_maxAge (td_refresh_expires_in d))],
                     res_location = None,
                     res_body = Some (JObj [(''isAuthenticated'', JBool True), (''user'', user)])\<rparr>,
                [RedisGet (cacheKey tok), AxiosGet (oidc_endpoint cfg ''userinfo'') (bearer tok),
                 refresh_call cfg rt,
                 AxiosGet (oidc_endpoint cfg ''userinfo'') (bearer (td_access_token d)),
                 RedisSet (cacheKey (td_access_token d))
                   (JSON_stringify env (authenticated user)) 300], v5)))"
  using assms
  by (simp add: auth_validate_def Let_def js_str_def userinfo_attempt_rejected refreshTokens_ok)
     (simp add: userinfo_attempt_def Let_def js_str_def res_defs not_authenticated_def authenticated_def
       split: prod.splits sum.splits)

text \<open>
  C1. When the first upstream call is rejected with 401, the request carries a refresh token
  and the token endpoint accepts it, the handler issues exactly one refresh call and repeats
  the upstream call exactly once, with the new access token, in the world the refresh left:
  the proxy's calls are the backend request, the refresh, the backend request again; the
  validation endpoint's are the cache lookup, the userinfo request, the refresh, the
  userinfo request again (and a cache write when that one succeeds). The answer is the
  answer of the repeated call: its payload with status 200 when it succeeds, status 401
  when it fails, in both cases with the two new cookies, and the world afterwards is the
  one the repeated call (and the cache write) left. A 401 on the repeated call ends the
  request with status 401; the list of calls is the same, so no second refresh is made.
\<close>

theorem one_refresh_one_retry:
  "(cookies_access_token req = Some tok \<and> tok \<noteq> [] \<and>
    cookies_refresh_token req = Some rt \<and> rt \<noteq> [] \<and>
    axios_request env w (proxy_config cfg req tok) = (Inl (AxiosError (Some 401)), w1) \<and>
    axios_post env w1 (oidc_endpoint cfg ''token'')
      (URLSearchParams_toString (refresh_form cfg rt)) form_headers = (Inr d, w2) \<longrightarrow>
      refresh_calls (calls (api_v1 cfg env w req)) = 1 \<and>
      backend_calls (calls (api_v1 cfg env w req)) = 2 \<and>
      calls (api_v1 cfg env w req) =
        [AxiosRequest (proxy_config cfg req tok), refresh_call cfg rt,
         AxiosRequest (proxy_config cfg req (td_access_token d))] \<and>
      (fst (axios_request env w2 (proxy_config cfg req (td_access_token d))) =
         Inl (AxiosError (Some 401)) \<longrightarrow>
       status_of (api_v1 cfg env w req) = Some 401) \<and>
      api_v1 cfg env w req =
        (case axios_request env w2 (proxy_config cfg req (td_access_token d)) of
           (Inr payload, w3) \<Rightarrow>
             (Inr \<lparr>res_statusCode = 200,
                   res_cookies =
                     [token_cookie cfg ''access_token'' (td_access_token d) (3600 * 1000),
                      token_cookie cfg ''refresh_token'' (td_refresh_token d)
                        (refresh_maxAge (td_refresh_expires_in d))],
                   res_location = None, res_body = Some payload\<rparr>,
              [AxiosRequest (proxy_config cfg req tok), refresh_call cfg rt,
               AxiosRequest (proxy_config cfg req (td_access_token d))], w3)
         | (Inl retryError, w3) \<Rightarrow>
             (Inr \<lparr>res_statusCode = 401,
                   res_cookies =
                     [token_cookie cfg ''access_token'' (td_access_token d) (3600 * 1000),
                      token_cookie cfg ''refresh_token'' (td_refresh_token d)
                        (refresh_maxAge (td_refresh_expires_in d))],
                   res_location = None,
                   res_body = Some (JObj [(''error'', JStr ''Unauthorized'')])\<rparr>,
              [AxiosRequest (proxy_config cfg req tok), refresh_call cfg rt,
               AxiosRequest (proxy_config cfg req (td_access_token d))], w3))) \<and>
   (validate_token req = Some tok \<and> tok \<noteq> [] \<and>
    validate_refreshToken req = Some rt \<and> rt \<noteq> [] \<and>
    redis_get env w (cacheKey tok) = (Inr cached, v1) \<and> \<not> truthy cached \<and>
    axios_get env v1 (oidc_endpoint cfg ''userinfo'') (bearer tok) =
      (Inl (AxiosError (Some 401)), v2) \<and>
    axios_post env v2 (oidc_endpoint cfg ''token'')
      (URLSearchParams_toString (refresh_form cfg rt)) form_headers = (Inr d, v3) \<longrightarrow>
      refresh_calls (calls (auth_validate cfg env w req)) = 1 \<and>
      userinfo_calls (calls (auth_validate cfg env w req)) = 2 \<and>
      take 4 (calls (auth_validate cfg env w req)) =
        [RedisGet (cacheKey tok), AxiosGet (oidc_endpoint cfg ''userinfo'') (bearer tok),
         refresh_call cfg rt,
         AxiosGet (oidc_endpoint cfg ''userinfo'') (bearer (td_access_token d))] \<and>
      (fst (axios_get env v3 (oidc_endpoint cfg ''userinfo'') (bearer (td_access_token d))) =
         Inl (AxiosError (Some 401)) \<longrightarrow>
       status_of (auth_validate cfg env w req) = Some 401) \<and>
      auth_validate cfg env w req =
        (case axios_get env v3 (oidc_endpoint cfg ''userinfo'') (bearer (td_access_token d)) of
           (Inl retryError, v4) \<Rightarrow>
             (Inr \<lparr>res_statusCode = 401,
                   res_cookies =
                     [token_cookie cfg ''access_token'' (td_access_token d) (3600 * 1000),
                      token_cookie cfg ''refresh_token'' (td_refresh_token d)
                        (refresh_maxAge (td_refresh_expires_in d))],
                   res_location = None,
                   res_body = Some (JObj [(''isAuthenticated'', JBool False)])\<rparr>,
              [RedisGet (cacheKey tok), AxiosGet (oidc_endpoint cfg ''userinfo'') (bearer tok),
               refresh_call cfg rt,
               AxiosGet (oidc_endpoint cfg ''userinfo'') (bearer (td_access_token d))], v4)
         | (Inr user, v4) \<Rightarrow>
             (case redis_set env v4 (cacheKey (td_access_token d))
                     (JSON_stringify env (authenticated user)) 300 of
                (Inl e, v5) \<Rightarrow>
                  (Inr \<lparr>res_statusCode = 401,
                        res_cookies =
                          [token_cookie cfg ''access_token'' (td_access_token d) (3600 * 1000),
                           token_cookie cfg ''refresh_token'' (td_refresh_token d)
                             (refresh_maxAge (td_refresh_expires_in d))],
                        res_location = None,
                        res_body = Some (JObj [(''isAuthenticated'', JBool False)])\<rparr>,
                   [RedisGet (cacheKey tok), AxiosGet (oidc_endpoint cfg ''userinfo'') (bearer tok),
                    refresh_call cfg rt,
                    AxiosGet (oidc_endpoint cfg ''userinfo'') (bearer (td_access_token d)),
                    RedisSet (cacheKey (td_access_token d))
                      (JSON_stringify env (authenticated user)) 300], v5)
              | (Inr done, v5) \<Rightarrow>
                  (Inr \<lparr>res_statusCode = 200,
                        res_cookies =
                          [token_cookie cfg ''access_token'' (td_access_token d) (3600 * 1000),
                           token_cookie cfg ''refresh_token'' (td_refresh_token d)
                             (refresh_maxAge (td_refresh_expires_in d))],
                        res_location = None,
                        res_body =
                          Some (JObj [(''isAuthenticated'', JBool True), (''user'', user)])\<rparr>,
                   [RedisGet (cacheKey tok), AxiosGet (oidc_endpoint cfg ''userinfo'') (bearer tok),
                    refresh_call cfg rt,
                    AxiosGet (oidc_endpoint cfg ''userinfo'') (bearer (td_access_token d)),
                    RedisSet (cacheKey (td_access_token d))
                      (JSON_stringify env (authenticated user)) 300], v5))))"
proof (intro conjI impI)
  assume p: "cookies_access_token req = Some tok \<and> tok \<noteq> [] \<and>
    cookies_refresh_token req = Some rt \<and> rt \<noteq> [] \<and>
    axios_request env w (proxy_config cfg req tok) = (Inl (AxiosError (Some 401)), w1) \<and>
    axios_post env w1 (oidc_endpoint cfg ''token'')
      (URLSearchParams_toString (refresh_form cfg rt)) form_headers = (Inr d, w2)"
  then have c: "calls (api_v1 cfg env w req) =
        [AxiosRequest (proxy_config cfg req tok), refresh_call cfg rt,
         AxiosRequest (proxy_config cfg req (td_access_token d))]"
    using proxy_part(1) [of req tok rt env w cfg w1 d w2] by simp
  show "calls (api_v1 cfg env w req) =
        [AxiosRequest (proxy_config cfg req tok), refresh_call cfg rt,
         AxiosRequest (proxy_config cfg req (td_access_token d))]"
    by (rule c)
  show "refresh_calls (calls (api_v1 cfg env w req)) = 1"
    by (simp add: c refresh_calls_def refresh_call_def)
  show "backend_calls (calls (api_v1 cfg env w req)) = 2"
    by (simp add: c backend_calls_def refresh_call_def)
  show "api_v1 cfg env w req =
        (case axios_request env w2 (proxy_config cfg req (td_access_token d)) of
           (Inr payload, w3) \<Rightarrow>
             (Inr \<lparr>res_statusCode = 200,
                   res_cookies =
                     [token_cookie cfg ''access_token'' (td_access_token d) (3600 * 1000),
                      token_cookie cfg ''refresh_token'' (td_refresh_token d)
                        (refresh_maxAge (td_refresh_expires_in d))],
                   res_location = None, res_body = Some payload\<rparr>,
              [AxiosRequest (proxy_config cfg req tok), refresh_call cfg rt,
               AxiosRequest (proxy_config cfg req (td_access_token d))], w3)
         | (Inl retryError, w3) \<Rightarrow>
             (Inr \<lparr>res_statusCode = 401,
                   res_cookies =
                     [token_cookie cfg ''access_token'' (td_access_token d) (3600 * 1000),
                      token_cookie cfg ''refresh_token'' (td_refresh_token d)
                        (refresh_maxAge (td_refresh_expires_in d))],
                   res_location = None,
                   res_body = Some (JObj [(''error'', JStr ''Unauthorized'')])\<rparr>,
              [AxiosRequest (proxy_config cfg req tok), refresh_call cfg rt,
               AxiosRequest (proxy_config cfg req (td_access_token d))], w3))"
    using p proxy_retry_run [of req tok rt env w cfg w1 d w2] by simp
  assume "fst (axios_request env w2 (proxy_config cfg req (td_access_token d))) =
         Inl (AxiosError (Some 401))"
  then show "status_of (api_v1 cfg env w req) = Some 401"
    using p proxy_part(2) [of req tok rt env w cfg w1 d w2] by simp
next
  assume p: "validate_token req = Some tok \<and> tok \<noteq> [] \<and>
    validate_refreshToken req = Some rt \<and> rt \<noteq> [] \<and>
    redis_get env w (cacheKey tok) = (Inr cached, v1) \<and> \<not> truthy cached \<and>
    axios_get env v1 (oidc_endpoint cfg ''userinfo'') (bearer tok) =
      (Inl (AxiosError (Some 401)), v2) \<and>
    axios_post env v2 (oidc_endpoint cfg ''token'')
      (URLSearchParams_toString (refresh_form cfg rt)) form_headers = (Inr d, v3)"
  then have c: "calls (auth_validate cfg env w req) =
        [RedisGet (cacheKey tok), AxiosGet (oidc_endpoint cfg ''userinfo'') (bearer tok),
         refresh_call cfg rt] @
        (case fst (axios_get env v3 (oidc_endpoint cfg ''userinfo'') (bearer (td_access_token d))) of
           Inl err \<Rightarrow> [AxiosGet (oidc_endpoint cfg ''userinfo'') (bearer (td_access_token d))]
         | Inr user \<Rightarrow>
             [AxiosGet (oidc_endpoint cfg ''userinfo'') (bearer (td_access_token d)),
              RedisSet (cacheKey (td_access_token d))
                (JSON_stringify env (authenticated user)) 300])"
    using validate_part(1) [of req tok rt env w cached v1 cfg v2 d v3] by simp
  show "refresh_calls (calls (auth_validate cfg env w req)) = 1"
    by (simp add: c refresh_calls_def refresh_call_def split: sum.splits)
  show "userinfo_calls (calls (auth_validate cfg env w req)) = 2"
    by (simp add: c userinfo_calls_def refresh_call_def split: sum.splits)
  show "take 4 (calls (auth_validate cfg env w req)) =
        [RedisGet (cacheKey tok), AxiosGet (oidc_endpoint cfg ''userinfo'') (bearer tok),
         refresh_call cfg rt,
         AxiosGet (oidc_endpoint cfg ''userinfo'') (bearer (td_access_token d))]"
    by (simp add: c split: sum.splits)
  show "auth_validate cfg env w req =
        (case axios_get env v3 (oidc_endpoint cfg ''userinfo'') (bearer (td_access_token d)) of
           (Inl retryError, v4) \<Rightarrow>
             (Inr \<lparr>res_statusCode = 401,
                   res_cookies =
                     [token_cookie cfg ''access_token'' (td_access_token d) (3600 * 1000),
                      token_cookie cfg ''refresh_token'' (td_refresh_token d)
                        (refresh_maxAge (td_refresh_expires_in d))],
                   res_location = None,
                   res_body = Some (JObj [(''isAuthenticated'', JBool False)])\<rparr>,
              [RedisGet (cacheKey tok), AxiosGet (oidc_endpoint cfg ''userinfo'') (bearer tok),
               refresh_call cfg rt,
               AxiosGet (oidc_endpoint cfg ''userinfo'') (bearer (td_access_token d))], v4)
         | (Inr user, v4) \<Rightarrow>
             (case redis_set env v4 (cacheKey (td_access_token d))
                     (JSON_stringify env (authenticated user)) 300 of
                (Inl e, v5) \<Rightarrow>
                  (Inr \<lparr>res_statusCode = 401,
                        res_cookies =
                          [token_cookie cfg ''access_token'' (td_access_token d) (3600 * 1000),
                           token_cookie cfg ''refresh_token'' (td_refresh_token d)
                             (refresh_maxAge (td_refresh_expires_in d))],
                        res_location = None,
                        res_body = Some (JObj [(''isAuthenticated'', JBool False)])\<rparr>,
                   [RedisGet (cacheKey tok), AxiosGet (oidc_endpoint cfg ''userinfo'') (bearer tok),
                    refresh_call cfg rt,
                    AxiosGet (oidc_endpoint cfg ''userinfo'') (bearer (td_access_token d)),
                    RedisSet (cacheKey (td_access_token d))
                      (JSON_stringify env (authenticated user)) 300], v5)
              | (Inr done, v5) \<Rightarrow>
                  (Inr \<lparr>res_statusCode = 200,
                        res_cookies =
                          [token_cookie cfg ''access_token'' (td_access_token d) (3600 * 1000),
                           token_cookie cfg ''refresh_token'' (td_refresh_token d)
                             (refresh_maxAge (td_refresh_expires_in d))],
                        res_location = None,
                        res_body =
                          Some (JObj [(''isAuthenticated'', JBool True), (''user'', user)])\<rparr>,
                   [RedisGet (cacheKey tok), AxiosGet (oidc_endpoint cfg ''userinfo'') (bearer tok),
                    refresh_call cfg rt,
                    AxiosGet (oidc_endpoint cfg ''userinfo'') (bearer (td_access_token d)),
                    RedisSet (cacheKey (td_access_token d))
                      (JSON_stringify env (authenticated user)) 300], v5)))"
    using p validate_retry_run [of req tok rt env w cached v1 cfg v2 d v3] by simp
  assume "fst (axios_get env v3 (oidc_endpoint cfg ''userinfo'') (bearer (td_access_token d))) =
         Inl (AxiosError (Some 401))"
  then show "status_of (auth_validate cfg env w req) = Some 401"
    using p validate_part(2) [of req tok rt env w cached v1 cfg v2 d v3] by simp
qed

text \<open>
  In the first world the backend and the provider accept the refreshed token \<open>AT2\<close>: both
  endpoints answer 200 with the payload of the repeated call. In the second they reject it
  with 401: both answer 401. In all four runs there is one refresh.
\<close>

theorem one_refresh_one_retry_witness:
  "refresh_calls (calls (api_v1 cfg0 (sim_env cfg0) world0 get_projects)) = 1 \<and>
   backend_calls (calls (api_v1 cfg0 (sim_env cfg0) world0 get_projects)) = 2 \<and>
   status_of (api_v1 cfg0 (sim_env cfg0) world0 get_projects) = Some 200 \<and>
   body_of (api_v1 cfg0 (sim_env cfg0) world0 get_projects) = Some (JArr []) \<and>
   refresh_calls (calls (api_v1 cfg0 (sim_env cfg0) world1 get_projects)) = 1 \<and>
   status_of (api_v1 cfg0 (sim_env cfg0) world1 get_projects) = Some 401 \<and>
   refresh_calls (calls (auth_validate cfg0 (sim_env cfg0) world0 get_validate)) = 1 \<and>
   userinfo_calls (calls (auth_validate cfg0 (sim_env cfg0) world0 get_validate)) = 2 \<and>
   status_of (auth_validate cfg0 (sim_env cfg0) world0 get_validate) = Some 200 \<and>
   body_of (auth_validate cfg0 (sim_env cfg0) world0 get_validate) = Some (authenticated u1) \<and>
   world_after (auth_validate cfg0 (sim_env cfg0) world0 get_validate) =
     store_set world0 (cacheKey ''AT2'') (sim_stringify (authenticated u1)) 300 \<and>
   refresh_calls (calls (auth_validate cfg0 (sim_env cfg0) world1 get_validate)) = 1 \<and>
   status_of (auth_validate cfg0 (sim_env cfg0) world1 get_validate) = Some 401"
proof -
  have post: "axios_post (sim_env cfg0) w (oidc_endpoint cfg0 ''token'')
     (URLSearchParams_toString (refresh_form cfg0 ''RT1'')) form_headers = (Inr AT2, w)"
    if "w = world0 \<or> w = world1" for w
    using that by (auto simp: sim_env_def sim_post_def world0_def world1_def)
  have req: "axios_request (sim_env cfg0) w (proxy_config cfg0 get_projects ''AT1'') =
      (Inl (AxiosError (Some 401)), w)" if "w = world0 \<or> w = world1" for w
    using that
    by (auto simp: sim_env_def sim_request_def world0_def world1_def proxy_config_def)
  have retry0: "axios_request (sim_env cfg0) world0
       (proxy_config cfg0 get_projects (td_access_token AT2)) = (Inr (JArr []), world0)"
    by (simp add: sim_env_def sim_request_def world0_def proxy_config_def AT2_def)
  have retry1: "axios_request (sim_env cfg0) world1
       (proxy_config cfg0 get_projects (td_access_token AT2)) =
       (Inl (AxiosError (Some 401)), world1)"
    by (simp add: sim_env_def sim_request_def world1_def world0_def)
  have ck: "cookies_access_token get_projects = Some ''AT1''"
    "cookies_refresh_token get_projects = Some ''RT1''"
    by (simp_all add: get_projects_def)
  have vt: "validate_token get_validate = Some ''AT1''"
    "validate_refreshToken get_validate = Some ''RT1''"
    by (simp_all add: get_validate_def validate_token_def validate_refreshToken_def js_or_def)
  have rg: "redis_get (sim_env cfg0) w (cacheKey ''AT1'') = (Inr None, w)"
    if "w = world0 \<or> w = world1" for w
    using that
    by (auto simp: sim_env_def sim_redis_get_def store_get_def world0_def world1_def)
  have ui: "axios_get (sim_env cfg0) w (oidc_endpoint cfg0 ''userinfo'') (bearer ''AT1'') =
      (Inl (AxiosError (Some 401)), w)" if "w = world0 \<or> w = world1" for w
    using that
    by (auto simp: sim_env_def sim_get_def world0_def world1_def bearer_def)
  have ui0: "axios_get (sim_env cfg0) world0 (oidc_endpoint cfg0 ''userinfo'')
       (bearer (td_access_token AT2)) = (Inr u1, world0)"
    by (simp add: sim_env_def sim_get_def world0_def AT2_def)
  have ui1: "axios_get (sim_env cfg0) world1 (oidc_endpoint cfg0 ''userinfo'')
       (bearer (td_access_token AT2)) = (Inl (AxiosError (Some 401)), world1)"
    by (simp add: sim_env_def sim_get_def world1_def world0_def)
  have set0: "redis_set (sim_env cfg0) world0 (cacheKey (td_access_token AT2))
       (JSON_stringify (sim_env cfg0) (authenticated u1)) 300 =
       (Inr (), store_set world0 (cacheKey ''AT2'') (sim_stringify (authenticated u1)) 300)"
    by (simp add: sim_env_def sim_redis_set_def world0_def AT2_def store_set_def)
  note a = one_refresh_one_retry [where req = get_projects and tok = "''AT1''" and rt = "''RT1''"
      and env = "sim_env cfg0" and cfg = cfg0 and w = world0 and ?w1.0 = world0
      and ?w2.0 = world0 and d = AT2, THEN conjunct1]
  note b = one_refresh_one_retry [where req = get_projects and tok = "''AT1''" and rt = "''RT1''"
      and env = "sim_env cfg0" and cfg = cfg0 and w = world1 and ?w1.0 = world1
      and ?w2.0 = world1 and d = AT2, THEN conjunct1]
  note c = one_refresh_one_retry [where req = get_validate and tok = "''AT1''" and rt = "''RT1''"
      and env = "sim_env cfg0" and cfg = cfg0 and w = world0 and ?v1.0 = world0
      and ?v2.0 = world0 and ?v3.0 = world0 and d = AT2 and cached = None, THEN conjunct2]
  note d = one_refresh_one_retry [where req = get_validate and tok = "''AT1''" and rt = "''RT1''"
      and env = "sim_env cfg0" and cfg = cfg0 and w = world1 and ?v1.0 = world1
      and ?v2.0 = world1 and ?v3.0 = world1 and d = AT2 and cached = None, THEN conjunct2]
  have a': "refresh_calls (calls (api_v1 cfg0 (sim_env cfg0) world0 get_projects)) = 1 \<and>
    backend_calls (calls (api_v1 cfg0 (sim_env cfg0) world0 get_projects)) = 2 \<and>
    status_of (api_v1 cfg0 (sim_env cfg0) world0 get_projects) = Some 200 \<and>
    body_of (api_v1 cfg0 (sim_env cfg0) world0 get_projects) = Some (JArr [])"
    using a post [of world0] req [of world0] retry0 ck
    by (simp add: calls_def refresh_calls_def backend_calls_def refresh_call_def status_of_def
        body_of_def)
  have b': "refresh_calls (calls (api_v1 cfg0 (sim_env cfg0) world1 get_projects)) = 1 \<and>
    status_of (api_v1 cfg0 (sim_env cfg0) world1 get_projects) = Some 401"
    using b post [of world1] req [of world1] retry1 ck
    by (simp add: calls_def refresh_calls_def backend_calls_def refresh_call_def status_of_def)
  have c': "refresh_calls (calls (auth_validate cfg0 (sim_env cfg0) world0 get_validate)) = 1 \<and>
    userinfo_calls (calls (auth_validate cfg0 (sim_env cfg0) world0 get_validate)) = 2 \<and>
    status_of (auth_validate cfg0 (sim_env cfg0) world0 get_validate) = Some 200 \<and>
    body_of (auth_validate cfg0 (sim_env cfg0) world0 get_validate) = Some (authenticated u1) \<and>
    world_after (auth_validate cfg0 (sim_env cfg0) world0 get_validate) =
      store_set world0 (cacheKey ''AT2'') (sim_stringify (authenticated u1)) 300"
    using c post [of world0] rg [of world0] ui [of world0] ui0 set0 vt
    by (simp add: calls_def refresh_calls_def userinfo_calls_def refresh_call_def status_of_def
        body_of_def world_after_def authenticated_def)
  have d': "refresh_calls (calls (auth_validate cfg0 (sim_env cfg0) world1 get_validate)) = 1 \<and>
    status_of (auth_validate cfg0 (sim_env cfg0) world1 get_validate) = Some 401"
    using d post [of world1] rg [of world1] ui [of world1] ui1 vt
    by (simp add: calls_def refresh_calls_def userinfo_calls_def refresh_call_def status_of_def)
  show ?thesis
    using a' b' c' d' by simp
qed

section \<open>What a failed retry and a missing refresh token produce\<close>

text \<open>
  C4, as stated, fails: in \<open>world3\<close> the backend rejects \<open>AT1\<close> with 401, the refresh
  yields \<open>AT2\<close>, the backend answers 503 to the retried request, and the proxy does not
  answer 503.
\<close>

theorem retry_status_surfaced_counterexample:
  "fst (axios_request (sim_env cfg0) world3 (proxy_config cfg0 get_projects ''AT1'')) =
     Inl (AxiosError (Some 401)) \<and>
   fst (refreshTokens cfg0 (sim_env cfg0) world3 ''RT1'' res0) =
     Some \<lparr>access_token = ''AT2'', refresh_token = ''RT2''\<rparr> \<and>
   fst (axios_request (sim_env cfg0) world3 (proxy_config cfg0 get_projects ''AT2'')) =
     Inl (AxiosError (Some 503)) \<and>
   status_of (api_v1 cfg0 (sim_env cfg0) world3 get_projects) \<noteq> Some 503"
  by (simp add: api_v1_def Let_def refreshTokens_def js_str_def get_projects_def sim_defs
      proxy_config_def AT2_def res_defs status_of_def)

text \<open>
  C4, amended. When the refresh succeeds and the retried backend call fails, with whatever
  status or with no response at all, the proxy answers 401 with body
  \<^verbatim>\<open>{error: 'Unauthorized'}\<close>; the status of the second attempt is not passed on. The
  two cookies written by the refresh are on that response.
\<close>

theorem retry_failure_is_unauthorized:
  assumes "cookies_access_token req = Some tok" "tok \<noteq> []"
    "cookies_refresh_token req = Some rt" "rt \<noteq> []"
    "axios_request env w (proxy_config cfg req tok) = (Inl (AxiosError (Some 401)), w1)"
    "axios_post env w1 (oidc_endpoint cfg ''token'')
        (URLSearchParams_toString (refresh_form cfg rt)) form_headers = (Inr d, w2)"
    "axios_request env w2 (proxy_config cfg req (td_access_token d)) = (Inl retryError, w3)"
  shows "fst (api_v1 cfg env w req) =
     Inr \<lparr>res_statusCode = 401,
          res_cookies =
            [token_cookie cfg ''access_token'' (td_access_token d) (3600 * 1000),
             token_cookie cfg ''refresh_token'' (td_refresh_token d)
               (refresh_maxAge (td_refresh_expires_in d))],
          res_location = None,
          res_body = Some (JObj [(''error'', JStr ''Unauthorized'')])\<rparr>"
  using assms
  by (simp add: api_v1_def Let_def js_str_def refreshTokens_def res_defs unauthorized_def)

theorem retry_failure_is_unauthorized_witness:
  "axios_request (sim_env cfg0) world3 (proxy_config cfg0 get_projects (td_access_token AT2)) =
     (Inl (AxiosError (Some 503)), world3) \<and>
   fst (api_v1 cfg0 (sim_env cfg0) world3 get_projects) =
     Inr \<lparr>res_statusCode = 401,
          res_cookies =
            [token_cookie cfg0 ''access_token'' ''AT2'' (3600 * 1000),
             token_cookie cfg0 ''refresh_token'' ''RT2'' 2592000000],
          res_location = None,
          res_body = Some (JObj [(''error'', JStr ''Unauthorized'')])\<rparr>"
proof -
  have 1: "cookies_access_token get_projects = Some ''AT1''"
    and 2: "cookies_refresh_token get_projects = Some ''RT1''"
    by (simp_all add: get_projects_def)
  have 3: "axios_request (sim_env cfg0) world3 (proxy_config cfg0 get_projects ''AT1'') =
      (Inl (AxiosError (Some 401)), world3)"
    by (simp add: sim_defs proxy_config_def)
  have 4: "axios_post (sim_env cfg0) world3 (oidc_endpoint cfg0 ''token'')
        (URLSearchParams_toString (refresh_form cfg0 ''RT1'')) form_headers = (Inr AT2, world3)"
    by (simp add: sim_defs)
  have 5: "axios_request (sim_env cfg0) world3
        (proxy_config cfg0 get_projects (td_access_token AT2)) =
      (Inl (AxiosError (Some 503)), world3)"
    by (simp add: sim_defs proxy_config_def AT2_def)
  show ?thesis
    using retry_failure_is_unauthorized [OF 1 _ 2 _ 3 4 5] 5
    by (simp add: AT2_def refresh_maxAge_def)
qed

text \<open>
  C5, as stated, fails: with an access token the backend rejects and no refresh token, the
  body sent is \<^verbatim>\<open>{error: 'API error'}\<close>, which is not the body of the proxy's answer to
  a request without access token.
\<close>

theorem no_refresh_token_counterexample:
  "fst (axios_request (sim_env cfg0) world1
        (proxy_config cfg0 (without_refresh get_projects) ''AT1'')) =
     Inl (AxiosError (Some 401)) \<and>
   body_of (api_v1 cfg0 (sim_env cfg0) world1 (without_refresh get_projects)) =
     Some (JObj [(''error'', JStr ''API error'')]) \<and>
   body_of (api_v1 cfg0 (sim_env cfg0) world1 (without_refresh get_projects)) \<noteq>
     body_of (api_v1 cfg0 (sim_env cfg0) world1 (anonymous get_projects))"
  by (simp add: api_v1_def Let_def js_str_def get_projects_def anonymous_def without_refresh_def
      sim_defs proxy_config_def res_defs body_of_def api_error_def unauthorized_def
      status_or_500_def)

text \<open>
  C5, amended. When the backend answers 401 and the request has no refresh token, the proxy
  answers with the upstream status 401 and body \<^verbatim>\<open>{error: 'API error'}\<close>, and the one
  backend request is the only call made: the refresh endpoint is not called.
\<close>

theorem no_refresh_token_api_error:
  assumes "cookies_access_token req = Some tok" "tok \<noteq> []"
    "\<not> truthy (cookies_refresh_token req)"
    "axios_request env w (proxy_config cfg req tok) = (Inl (AxiosError (Some 401)), w1)"
  shows "api_v1 cfg env w req =
     (Inr \<lparr>res_statusCode = 401, res_cookies = [], res_location = None,
           res_body = Some (JObj [(''error'', JStr ''API error'')])\<rparr>,
      [AxiosRequest (proxy_config cfg req tok)], w1) \<and>
     refresh_calls (calls (api_v1 cfg env w req)) = 0"
  using assms
  by (simp add: api_v1_def Let_def js_str_def res_defs api_error_def status_or_500_def
       calls_def refresh_calls_def)

theorem no_refresh_token_api_error_witness:
  "\<not> truthy (cookies_refresh_token (without_refresh get_projects)) \<and>
   status_of (api_v1 cfg0 (sim_env cfg0) world1 (without_refresh get_projects)) = Some 401 \<and>
   calls (api_v1 cfg0 (sim_env cfg0) world1 (without_refresh get_projects)) =
     [AxiosRequest (proxy_config cfg0 (without_refresh get_projects) ''AT1'')]"
proof -
  have 1: "cookies_access_token (without_refresh get_projects) = Some ''AT1''"
    and 2: "\<not> truthy (cookies_refresh_token (without_refresh get_projects))"
    by (simp_all add: get_projects_def without_refresh_def)
  have 3: "axios_request (sim_env cfg0) world1
        (proxy_config cfg0 (without_refresh get_projects) ''AT1'') =
      (Inl (AxiosError (Some 401)), world1)"
    by (simp add: sim_defs proxy_config_def)
  show ?thesis
    using no_refresh_token_api_error [OF 1 _ 2 3] 2
    by (simp add: status_of_def calls_def)
qed

section \<open>A failed refresh\<close>

text \<open>
  C6. When the token endpoint rejects the refresh token, or the call to it fails,
  \<^verbatim>\<open>refreshTokens\<close> returns \<^verbatim>\<open>null\<close> and hands back the response object as it received
  it: no cookie directive is written. It has made the one call to the token endpoint.
\<close>

theorem failed_refresh_writes_no_cookie:
  assumes "axios_post env w (oidc_endpoint cfg ''token'')
      (URLSearchParams_toString (refresh_form cfg rt)) form_headers = (Inl err, w1)"
  shows "refreshTokens cfg env w rt r = (None, r, [refresh_call cfg rt], w1)"
  using assms by (simp add: refreshTokens_def)

theorem failed_refresh_writes_no_cookie_witness:
  "axios_post (sim_env cfg0) world0 (oidc_endpoint cfg0 ''token'')
      (URLSearchParams_toString (refresh_form cfg0 ''RTX'')) form_headers =
     (Inl (AxiosError (Some 400)), world0) \<and>
   refreshTokens cfg0 (sim_env cfg0) world0 ''RTX'' res0 =
     (None, res0, [refresh_call cfg0 ''RTX''], world0)"
proof -
  have 1: "axios_post (sim_env cfg0) world0 (oidc_endpoint cfg0 ''token'')
      (URLSearchParams_toString (refresh_form cfg0 ''RTX'')) form_headers =
     (Inl (AxiosError (Some 400)), world0)"
    by (simp add: sim_defs refresh_form_def form_defs)
  show ?thesis
    using failed_refresh_writes_no_cookie [OF 1] 1 by simp
qed

text \<open>
  Scenario D of the specification: the backend rejects the access token and the provider
  rejects the refresh token. The answer is 401 \<^verbatim>\<open>{error: 'Unauthorized'}\<close> and carries no
  cookie directive.
\<close>

lemma scenario_D:
  "fst (api_v1 cfg0 (sim_env cfg0) world0 (get_projects\<lparr>cookies_refresh_token := Some ''RTX''\<rparr>)) =
     Inr \<lparr>res_statusCode = 401, res_cookies = [], res_location = None,
          res_body = Some (JObj [(''error'', JStr ''Unauthorized'')])\<rparr>"
  by (simp add: api_v1_def Let_def js_str_def get_projects_def refreshTokens_def sim_defs
      proxy_config_def refresh_form_def form_defs res_defs unauthorized_def)


section \<open>What the proxy sends to the backend\<close>

text \<open>
  The URL handed to axios is the backend base URL followed by everything after
  \<^verbatim>\<open>/api/v1\<close> in \<^verbatim>\<open>req.originalUrl\<close>, query string included. When the request has
  query parameters, the URL on the wire therefore carries the original query string and,
  after it, the parameters once more.
\<close>

lemma replace_prefix: "pat \<noteq> [] \<Longrightarrow> replace_first pat rep (pat @ rest) = rep @ rest"
proof -
  have s: "startsWith (pat @ rest) pat" for pat rest :: string
    by (induction pat) simp_all
  assume "pat \<noteq> []"
  then show ?thesis using s [of pat rest] by (cases pat) simp_all
qed

lemma proxy_url_carries_query:
  assumes "req_originalUrl req = ''/api/v1'' @ path @ ''?'' @ qs" "req_query req \<noteq> []"
  shows "axios_buildURL (ac_url (proxy_config cfg req tok)) (ac_params (proxy_config cfg req tok)) =
     API_BASE_URL cfg @ path @ ''?'' @ qs @ ''&'' @ URLSearchParams_toString (req_query req)"
  using assms replace_prefix [of "''/api/v1''" "path @ ''?'' @ qs" "[]"]
  by (simp add: proxy_config_def apiPath_def axios_buildURL_def)

text \<open>
  C7 at the request \<^verbatim>\<open>GET /api/v1/projects?limit=10\<close> with a valid access token: one
  backend request, with the method, the body and the bearer header of the claim. Its URL is
  built from \<^verbatim>\<open>req.originalUrl\<close> and so already ends in \<^verbatim>\<open>?limit=10\<close>; the same
  parameter is passed again as \<^verbatim>\<open>params\<close>, which axios appends to the URL. The backend
  receives \<^verbatim>\<open>limit=10\<close> twice.
\<close>

theorem query_forwarded_twice:
  "calls (api_v1 cfg0 (sim_env cfg0) world2 get_projects) =
     [AxiosRequest
        \<lparr>ac_method = ''GET'',
         ac_url = ''http://localhost:8080/api/v1/projects?limit=10'',
         ac_headers = [(''Authorization'', ''Bearer AT1''), (''Content-Type'', ''application/json'')],
         ac_data = JObj [],
         ac_params = [(''limit'', ''10'')]\<rparr>] \<and>
   axios_buildURL ''http://localhost:8080/api/v1/projects?limit=10'' [(''limit'', ''10'')] =
     ''http://localhost:8080/api/v1/projects?limit=10&limit=10''"
  by (simp add: api_v1_def Let_def js_str_def get_projects_def sim_defs proxy_config_def
      apiPath_def cfg0_def load_config_def env_or_def calls_def axios_buildURL_def form_defs)

section \<open>The login redirect\<close>

text \<open>
  C8, as stated, fails: the handler appends four query parameters to the authorization URL,
  not five.
\<close>

theorem login_five_parameters_counterexample:
  "map_option (length \<circ> url_searchParams) (authUrl example_new_URL cfg0) \<noteq> Some 5 \<and>
   map_option url_searchParams (authUrl example_new_URL cfg0) =
     Some [(''client_id'', ''nextjs-app''),
           (''redirect_uri'', ''http://localhost:4000/auth/callback''),
           (''response_type'', ''code''),
           (''scope'', ''openid profile email'')] \<and>
   auth_login example_new_URL cfg0 =
     Inr \<lparr>res_statusCode = 302, res_cookies = [],
          res_location =
            Some (''http://localhost:8081/realms/dumper/protocol/openid-connect/auth'' @
                  ''?client_id=nextjs-app'' @
                  ''&redirect_uri=http%3A%2F%2Flocalhost%3A4000%2Fauth%2Fcallback'' @
                  ''&response_type=code'' @
                  ''&scope=openid+profile+email''),
          res_body = None\<rparr>"
  by (simp add: authUrl_def searchParams_append_def example_new_URL_def auth_login_def res_defs
      URL_toString_def cfg0_def load_config_def env_or_def oidc_endpoint_def REDIRECT_URI_def
      form_defs)

text \<open>
  C8, amended. Where the configured authorization endpoint address is a URL the platform's
  parser accepts, \<^verbatim>\<open>GET /auth/login\<close> answers 302 and redirects to that address, in the
  parser's normal form, whose query is the parameters the address already had followed by
  the four parameters \<^verbatim>\<open>client_id\<close>, \<^verbatim>\<open>redirect_uri\<close>, \<^verbatim>\<open>response_type=code\<close> and
  \<^verbatim>\<open>scope=openid profile email\<close>, in this order and form-encoded; for an address without
  query of its own the query is exactly these four. Where the parser throws, the handler
  throws and sends no redirect.
\<close>

theorem login_redirect:
  "(new_URL (oidc_endpoint cfg ''auth'') = Some u \<longrightarrow>
      auth_login new_URL cfg =
        Inr \<lparr>res_statusCode = 302, res_cookies = [],
             res_location =
               Some (url_href u @ ''?'' @
                     URLSearchParams_toString
                       (url_searchParams u @
                        [(''client_id'', CLIENT_ID cfg), (''redirect_uri'', REDIRECT_URI cfg),
                         (''response_type'', ''code''), (''scope'', ''openid profile email'')]) @
                     url_hash u),
             res_body = None\<rparr>) \<and>
   (new_URL (oidc_endpoint cfg ''auth'') = Some u \<and> url_searchParams u = [] \<longrightarrow>
      auth_login new_URL cfg =
        Inr \<lparr>res_statusCode = 302, res_cookies = [],
             res_location =
               Some (url_href u @ ''?client_id='' @ form_encode (CLIENT_ID cfg) @
                     ''&redirect_uri='' @ form_encode (REDIRECT_URI cfg) @
                     ''&response_type=code&scope=openid+profile+email'' @ url_hash u),
             res_body = None\<rparr>) \<and>
   (new_URL (oidc_endpoint cfg ''auth'') = None \<longrightarrow>
      auth_login new_URL cfg = Inl InvalidURL)"
proof (intro conjI impI)
  assume "new_URL (oidc_endpoint cfg ''auth'') = Some u"
  then show "auth_login new_URL cfg =
        Inr \<lparr>res_statusCode = 302, res_cookies = [],
             res_location =
               Some (url_href u @ ''?'' @
                     URLSearchParams_toString
                       (url_searchParams u @
                        [(''client_id'', CLIENT_ID cfg), (''redirect_uri'', REDIRECT_URI cfg),
                         (''response_type'', ''code''), (''scope'', ''openid profile email'')]) @
                     url_hash u),
             res_body = None\<rparr>"
    by (simp add: authUrl_def searchParams_append_def auth_login_def res_defs URL_toString_def)
next
  assume "new_URL (oidc_endpoint cfg ''auth'') = Some u \<and> url_searchParams u = []"
  then show "auth_login new_URL cfg =
        Inr \<lparr>res_statusCode = 302, res_cookies = [],
             res_location =
               Some (url_href u @ ''?client_id='' @ form_encode (CLIENT_ID cfg) @
                     ''&redirect_uri='' @ form_encode (REDIRECT_URI cfg) @
                     ''&response_type=code&scope=openid+profile+email'' @ url_hash u),
             res_body = None\<rparr>"
    by (simp add: authUrl_def searchParams_append_def auth_login_def res_defs URL_toString_def
        URLSearchParams_toString_def)
       (simp add: form_encode_def form_char_def form_safe_def)
next
  assume "new_URL (oidc_endpoint cfg ''auth'') = None"
  then show "auth_login new_URL cfg = Inl InvalidURL"
    by (simp add: authUrl_def auth_login_def)
qed

text \<open>
  Three configurations: the default one; one whose provider address names the default port,
  which is gone from the redirect target; one whose provider address has no scheme, where
  nothing is sent.
\<close>

theorem login_redirect_witness:
  "auth_login example_new_URL cfg0 =
     Inr \<lparr>res_statusCode = 302, res_cookies = [],
          res_location =
            Some (''http://localhost:8081/realms/dumper/protocol/openid-connect/auth'' @
                  ''?client_id=nextjs-app'' @
                  ''&redirect_uri=http%3A%2F%2Flocalhost%3A4000%2Fauth%2Fcallback'' @
                  ''&response_type=code&scope=openid+profile+email''),
          res_body = None\<rparr> \<and>
   auth_login example_new_URL cfg443 =
     Inr \<lparr>res_statusCode = 302, res_cookies = [],
          res_location =
            Some (''https://auth.example.com/realms/dumper/protocol/openid-connect/auth'' @
                  ''?client_id=nextjs-app'' @
                  ''&redirect_uri=http%3A%2F%2Flocalhost%3A4000%2Fauth%2Fcallback'' @
                  ''&response_type=code&scope=openid+profile+email''),
          res_body = None\<rparr> \<and>
   auth_login example_new_URL cfg_schemeless = Inl InvalidURL"
proof -
  let ?u0 = "\<lparr>url_href = ''http://localhost:8081/realms/dumper/protocol/openid-connect/auth'',
              url_searchParams = [], url_hash = []\<rparr>"
  let ?u1 = "\<lparr>url_href = ''https://auth.example.com/realms/dumper/protocol/openid-connect/auth'',
              url_searchParams = [], url_hash = []\<rparr>"
  have 0: "example_new_URL (oidc_endpoint cfg0 ''auth'') = Some ?u0 \<and> url_searchParams ?u0 = []"
    by (simp add: example_new_URL_def oidc_endpoint_def cfg0_def load_config_def env_or_def)
  have 1: "example_new_URL (oidc_endpoint cfg443 ''auth'') = Some ?u1 \<and> url_searchParams ?u1 = []"
    by (simp add: example_new_URL_def oidc_endpoint_def cfg443_def cfg0_def load_config_def
        env_or_def)
  have 2: "example_new_URL (oidc_endpoint cfg_schemeless ''auth'') = None"
    by (simp add: example_new_URL_def oidc_endpoint_def cfg_schemeless_def cfg0_def
        load_config_def env_or_def)
  have e: "form_encode (CLIENT_ID c) = ''nextjs-app'' \<and>
      form_encode (REDIRECT_URI c) = ''http%3A%2F%2Flocalhost%3A4000%2Fauth%2Fcallback''"
    if "c = cfg0 \<or> c = cfg443" for c
    using that
    by (auto simp: cfg443_def cfg0_def load_config_def env_or_def REDIRECT_URI_def form_defs)
  have a: "auth_login example_new_URL cfg0 =
        Inr \<lparr>res_statusCode = 302, res_cookies = [],
             res_location =
               Some (url_href ?u0 @ ''?client_id='' @ form_encode (CLIENT_ID cfg0) @
                     ''&redirect_uri='' @ form_encode (REDIRECT_URI cfg0) @
                     ''&response_type=code&scope=openid+profile+email'' @ url_hash ?u0),
             res_body = None\<rparr>"
    using login_redirect [where new_URL = example_new_URL and cfg = cfg0 and u = ?u0,
        THEN conjunct2, THEN conjunct1] 0 by (rule mp)
  have b: "auth_login example_new_URL cfg443 =
        Inr \<lparr>res_statusCode = 302, res_cookies = [],
             res_location =
               Some (url_href ?u1 @ ''?client_id='' @ form_encode (CLIENT_ID cfg443) @
                     ''&redirect_uri='' @ form_encode (REDIRECT_URI cfg443) @
                     ''&response_type=code&scope=openid+profile+email'' @ url_hash ?u1),
             res_body = None\<rparr>"
    using login_redirect [where new_URL = example_new_URL and cfg = cfg443 and u = ?u1,
        THEN conjunct2, THEN conjunct1] 1 by (rule mp)
  have c: "auth_login example_new_URL cfg_schemeless = Inl InvalidURL"
    using login_redirect [where new_URL = example_new_URL and cfg = cfg_schemeless and u = ?u0,
        THEN conjunct2, THEN conjunct2] 2 by (rule mp)
  show ?thesis
    using a b c e [of cfg0] e [of cfg443] by simp
qed

section \<open>The identity cache\<close>

lemma userinfo_attempt_reads:
  "cache_reads (fst (snd (userinfo_attempt cfg env w tok r))) = []"
  by (simp add: userinfo_attempt_def Let_def split: prod.splits sum.splits)

lemma refreshTokens_reads:
  "cache_reads (fst (snd (snd (refreshTokens cfg env w rt r)))) = []"
  by (simp add: refreshTokens_def refresh_call_def split: prod.splits sum.splits)

lemma cache_reads_append: "cache_reads (xs @ ys) = cache_reads xs @ cache_reads ys"
  by (induction xs rule: cache_reads.induct) simp_all

lemma validate_reads:
  assumes "validate_token req = Some tok" "tok \<noteq> []"
  shows "cache_reads (calls (auth_validate cfg env w req)) = [cacheKey tok]"
proof -
  have u: "cache_reads tr = []" if "userinfo_attempt cfg env w' t r = (x, tr, w'')" for w' t r x tr w''
    using userinfo_attempt_reads [of cfg env w' t r] that by simp
  have f: "cache_reads tr = []" if "refreshTokens cfg env w' t r = (x, r', tr, w'')" for w' t r x r' tr w''
    using refreshTokens_reads [of cfg env w' t r] that by simp
  show ?thesis
    using assms
    by (auto simp: auth_validate_def Let_def js_str_def calls_def cache_reads_append
        dest!: u f split: prod.splits sum.splits option.splits)
qed

text \<open>
  What a validation request writes to the cache: always with a lifetime of 300 seconds,
  under the key of a token it has presented to the provider, and the value is the
  serialised answer the provider gave for that token.
\<close>

lemma validate_writes:
  assumes "RedisSet k v n \<in> set (calls (auth_validate cfg env w req))"
  shows "n = 300 \<and>
    (\<exists>t w' user. k = cacheKey t \<and>
       fst (axios_get env w' (oidc_endpoint cfg ''userinfo'') (bearer t)) = Inr user \<and>
       v = JSON_stringify env (authenticated user))"
proof -
  define P where "P tr \<longleftrightarrow>
    (RedisSet k v n \<in> set tr \<longrightarrow>
       n = 300 \<and>
       (\<exists>t w' user. k = cacheKey t \<and>
          fst (axios_get env w' (oidc_endpoint cfg ''userinfo'') (bearer t)) = Inr user \<and>
          v = JSON_stringify env (authenticated user)))" for tr
  have nil: "P []"
    by (simp add: P_def)
  have get: "P (RedisGet key # tr)" if "P tr" for key tr
    using that by (simp add: P_def)
  have app: "P (a @ b)" if "P a" "P b" for a b
    using that by (auto simp: P_def)
  have ua: "P tr" if "userinfo_attempt cfg env w' t r = (x, tr, w'')" for w' t r x tr w''
  proof (cases "axios_get env w' (oidc_endpoint cfg ''userinfo'') (bearer t)")
    case (Pair a w1)
    show ?thesis
    proof (cases a)
      case (Inl err)
      with Pair that show ?thesis
        by (auto simp: P_def userinfo_attempt_def)
    next
      case (Inr user)
      with Pair have "fst (axios_get env w' (oidc_endpoint cfg ''userinfo'') (bearer t)) = Inr user"
        by simp
      moreover from Pair Inr that
      have "tr = [AxiosGet (oidc_endpoint cfg ''userinfo'') (bearer t),
                  RedisSet (cacheKey t) (JSON_stringify env (authenticated user)) 300]"
        by (auto simp: userinfo_attempt_def Let_def split: prod.splits sum.splits)
      ultimately show ?thesis
        unfolding P_def by auto
    qed
  qed
  have rf: "P tr" if "refreshTokens cfg env w' t r = (x, r', tr, w'')" for w' t r x r' tr w''
    using that
    by (auto simp: P_def refreshTokens_def refresh_call_def split: prod.splits sum.splits)
  let ?run = "auth_validate cfg env w req"
  let ?key = "cacheKey (js_str (validate_token req))"
  have "P (calls ?run)"
  proof (cases "truthy (validate_token req)")
    case False
    then show ?thesis
      by (simp add: auth_validate_def calls_def nil)
  next
    case tok: True
    obtain g w1 where g: "redis_get env w ?key = (g, w1)"
      by (cases "redis_get env w ?key")
    show ?thesis
    proof (cases g)
      case (Inl e)
      with tok g show ?thesis
        by (simp add: auth_validate_def Let_def calls_def get nil)
    next
      case (Inr cached)
      show ?thesis
      proof (cases "truthy cached")
        case True
        with tok g Inr show ?thesis
          by (simp add: auth_validate_def Let_def calls_def get nil split: option.split)
      next
        case miss: False
        obtain x tr w2
          where a1: "userinfo_attempt cfg env w1 (js_str (validate_token req)) res0 = (x, tr, w2)"
          by (cases "userinfo_attempt cfg env w1 (js_str (validate_token req)) res0")
        have ptr: "P (RedisGet ?key # tr)"
          by (rule get [OF ua [OF a1]])
        show ?thesis
        proof (cases "x = Inl (Some 401) \<and> truthy (validate_refreshToken req)")
          case False
          with tok g Inr miss a1 have "calls ?run = RedisGet ?key # tr"
            by (cases x) (auto simp: auth_validate_def Let_def calls_def)
          then show ?thesis
            using ptr by simp
        next
          case True
          obtain y r1 tr1 w3
            where f1: "refreshTokens cfg env w2 (js_str (validate_refreshToken req)) res0 =
              (y, r1, tr1, w3)"
            by (cases "refreshTokens cfg env w2 (js_str (validate_refreshToken req)) res0")
          have ptr1: "P ((RedisGet ?key # tr) @ tr1)"
            by (rule app [OF ptr rf [OF f1]])
          show ?thesis
          proof (cases y)
            case None
            with tok g Inr miss a1 True f1 have "calls ?run = (RedisGet ?key # tr) @ tr1"
              by (simp add: auth_validate_def Let_def calls_def)
            then show ?thesis
              using ptr1 by simp
          next
            case (Some toks)
            obtain x2 tr2 w4
              where a2: "userinfo_attempt cfg env w3 (access_token toks) r1 = (x2, tr2, w4)"
              by (cases "userinfo_attempt cfg env w3 (access_token toks) r1")
            have ptr2: "P (((RedisGet ?key # tr) @ tr1) @ tr2)"
              by (rule app [OF ptr1 ua [OF a2]])
            from tok g Inr miss a1 True f1 Some a2
            have "calls ?run = ((RedisGet ?key # tr) @ tr1) @ tr2"
              by (cases x2) (simp_all add: auth_validate_def Let_def calls_def)
            then show ?thesis
              using ptr2 by simp
          qed
        qed
      qed
    qed
  qed
  then show ?thesis
    using assms by (simp add: P_def)
qed

text \<open>
  C9. A validation request looks the cache up under the key of its own access token and no
  other, and writes an entry only under the key of the token whose identity the entry
  holds. Keys of distinct tokens are distinct, so in a key-value store an entry written
  under the key of one token leaves what a lookup under the key of another returns as it
  was, and is returned by a lookup under its own key.
\<close>

theorem cache_key_isolation:
  "(validate_token req = Some t1 \<and> t1 \<noteq> [] \<longrightarrow>
      cache_reads (calls (auth_validate cfg env w0 req)) = [cacheKey t1]) \<and>
   (RedisSet k s n \<in> set (calls (auth_validate cfg env w0 req)) \<longrightarrow>
      (\<exists>t w' user. k = cacheKey t \<and>
         fst (axios_get env w' (oidc_endpoint cfg ''userinfo'') (bearer t)) = Inr user \<and>
         s = JSON_stringify env (authenticated user))) \<and>
   (0 < ttl \<longrightarrow> store_get (store_set w (cacheKey t1) v ttl) (cacheKey t1) = Some v) \<and>
   (t1 \<noteq> t2 \<longrightarrow>
      cacheKey t1 \<noteq> cacheKey t2 \<and>
      store_get (store_set w (cacheKey t1) v ttl) (cacheKey t2) = store_get w (cacheKey t2))"
proof (intro conjI impI)
  assume "validate_token req = Some t1 \<and> t1 \<noteq> []"
  then show "cache_reads (calls (auth_validate cfg env w0 req)) = [cacheKey t1]"
    by (simp add: validate_reads)
next
  assume "RedisSet k s n \<in> set (calls (auth_validate cfg env w0 req))"
  then show "\<exists>t w' user. k = cacheKey t \<and>
         fst (axios_get env w' (oidc_endpoint cfg ''userinfo'') (bearer t)) = Inr user \<and>
         s = JSON_stringify env (authenticated user)"
    by (rule validate_writes [THEN conjunct2])
next
  assume "0 < ttl"
  then show "store_get (store_set w (cacheKey t1) v ttl) (cacheKey t1) = Some v"
    by (simp add: store_get_def store_set_def)
next
  assume "t1 \<noteq> t2"
  then show "cacheKey t1 \<noteq> cacheKey t2"
    by (simp add: cacheKey_def)
next
  assume "t1 \<noteq> t2"
  then show "store_get (store_set w (cacheKey t1) v ttl) (cacheKey t2) =
      store_get w (cacheKey t2)"
    by (auto simp: store_get_def store_set_def cacheKey_def split: option.splits)
qed

text \<open>
  An example: the request with \<open>AT1\<close> in the first world reads the key of \<open>AT1\<close>; the
  provider rejects \<open>AT1\<close>, the refresh yields \<open>AT2\<close>, and the identity the provider
  returns for \<open>AT2\<close> is written under the key of \<open>AT2\<close>.
\<close>

theorem cache_key_isolation_witness:
  "cache_reads (calls (auth_validate cfg0 (sim_env cfg0) world0 get_validate)) =
     [cacheKey ''AT1''] \<and>
   RedisSet (cacheKey ''AT2'') (sim_stringify (authenticated u1)) 300 \<in>
     set (calls (auth_validate cfg0 (sim_env cfg0) world0 get_validate)) \<and>
   (\<exists>t w' user. cacheKey ''AT2'' = cacheKey t \<and>
      fst (axios_get (sim_env cfg0) w' (oidc_endpoint cfg0 ''userinfo'') (bearer t)) = Inr user \<and>
      sim_stringify (authenticated u1) = JSON_stringify (sim_env cfg0) (authenticated user)) \<and>
   store_get (store_set world0 (cacheKey ''AT1'') ''x'' 300) (cacheKey ''AT1'') = Some ''x'' \<and>
   store_get (store_set world0 (cacheKey ''AT1'') ''x'' 300) (cacheKey ''AT2'') = None"
proof -
  have 1: "validate_token get_validate = Some ''AT1'' \<and> ''AT1'' \<noteq> []"
    by (simp add: validate_token_def js_or_def get_validate_def)
  have 2: "store_get world0 (cacheKey ''AT2'') = None"
    by (simp add: store_get_def world0_def)
  have 3: "(0::nat) < 300" and 4: "''AT1'' \<noteq> ''AT2''"
    by simp_all
  have 5: "RedisSet (cacheKey ''AT2'') (sim_stringify (authenticated u1)) 300 \<in>
     set (calls (auth_validate cfg0 (sim_env cfg0) world0 get_validate))"
    by (simp add: auth_validate_def Let_def validate_token_def validate_refreshToken_def
        js_or_def js_str_def get_validate_def userinfo_attempt_def refreshTokens_def
        sim_env_def sim_get_def sim_post_def sim_redis_get_def sim_redis_set_def store_get_def
        world0_def bearer_def AT2_def calls_def)
  note k = cache_key_isolation [where req = get_validate and ?t1.0 = "''AT1''" and ?t2.0 = "''AT2''"
        and cfg = cfg0 and env = "sim_env cfg0" and ?w0.0 = world0 and w = world0
        and ttl = 300 and v = "''x''" and k = "cacheKey ''AT2''"
        and s = "sim_stringify (authenticated u1)" and n = 300]
  have a: "cache_reads (calls (auth_validate cfg0 (sim_env cfg0) world0 get_validate)) =
     [cacheKey ''AT1'']"
    using k 1 by simp
  have b: "store_get (store_set world0 (cacheKey ''AT1'') ''x'' 300) (cacheKey ''AT1'') = Some ''x''"
    using k 3 by simp
  have c: "store_get (store_set world0 (cacheKey ''AT1'') ''x'' 300) (cacheKey ''AT2'') =
     store_get world0 (cacheKey ''AT2'')"
    using k 4 by simp
  have d: "\<exists>t w' user. cacheKey ''AT2'' = cacheKey t \<and>
      fst (axios_get (sim_env cfg0) w' (oidc_endpoint cfg0 ''userinfo'') (bearer t)) = Inr user \<and>
      sim_stringify (authenticated u1) = JSON_stringify (sim_env cfg0) (authenticated user)"
    using k [THEN conjunct2, THEN conjunct1] 5 by (rule mp)
  show ?thesis
    using a b c d 2 5 by simp
qed

text \<open>
  C10. When the cache holds an entry under the key of the request's access token, the
  validation endpoint answers 200 with the parsed entry as body, and the cache lookup is
  the only call it makes: the identity provider is not asked, whatever it would answer.
\<close>

theorem cache_hit_skips_provider:
  assumes "validate_token req = Some tok" "tok \<noteq> []"
    "redis_get env w (cacheKey tok) = (Inr (Some cached), w1)" "cached \<noteq> []"
    "JSON_parse env cached = Some payload"
  shows "auth_validate cfg env w req =
     (Inr \<lparr>res_statusCode = 200, res_cookies = [], res_location = None,
           res_body = Some payload\<rparr>, [RedisGet (cacheKey tok)], w1)"
  using assms by (simp add: auth_validate_def Let_def js_str_def res_defs)

lemma revoked_world:
  "revoked_at t =
     \<lparr>sim_api = [(''AT1'', Inr (JArr []))], sim_identities = [], sim_refresh = [(''RT1'', AT2)],
      sim_redis_up = True, sim_now = t,
      sim_store = [(''userinfo:AT1'', ''{isAuthenticated:true,user:{sub:u1}}'', 1300)]\<rparr>"
  by (simp add: auth_validate_def Let_def validate_token_def validate_refreshToken_def js_or_def
      js_str_def get_validate_def userinfo_attempt_def sim_defs bearer_def cacheKey_def res_defs)

text \<open>
  An example: a validation request at time 1000 fills the cache; the provider then revokes
  the token. At 1299 the provider would answer 401, yet the endpoint answers 200 with the
  cached identity and asks nobody but the cache. At 1300 the entry has expired and the
  answer is 401.
\<close>

theorem cache_hit_skips_provider_witness:
  "fst (axios_get (sim_env cfg0) (revoked_at 1299) (oidc_endpoint cfg0 ''userinfo'')
         (bearer ''AT1'')) = Inl (AxiosError (Some 401)) \<and>
   auth_validate cfg0 (sim_env cfg0) (revoked_at 1299) get_validate =
     (Inr \<lparr>res_statusCode = 200, res_cookies = [], res_location = None,
           res_body = Some (authenticated u1)\<rparr>, [RedisGet (cacheKey ''AT1'')], revoked_at 1299) \<and>
   status_of (auth_validate cfg0 (sim_env cfg0) (revoked_at 1300) get_validate) = Some 401"
proof -
  have 1: "validate_token get_validate = Some ''AT1''"
    by (simp add: validate_token_def js_or_def get_validate_def)
  have 2: "redis_get (sim_env cfg0) (revoked_at 1299) (cacheKey ''AT1'') =
      (Inr (Some ''{isAuthenticated:true,user:{sub:u1}}''), revoked_at 1299)"
    by (simp add: revoked_world sim_env_def sim_redis_get_def store_get_def cacheKey_def)
  have 3: "JSON_parse (sim_env cfg0) ''{isAuthenticated:true,user:{sub:u1}}'' =
      Some (authenticated u1)"
    by (simp add: sim_env_def sim_parse_def)
  have 4: "fst (axios_get (sim_env cfg0) (revoked_at 1299) (oidc_endpoint cfg0 ''userinfo'')
         (bearer ''AT1'')) = Inl (AxiosError (Some 401))"
    by (simp add: revoked_world sim_env_def sim_get_def)
  have 5: "status_of (auth_validate cfg0 (sim_env cfg0) (revoked_at 1300) get_validate) = Some 401"
    by (simp add: revoked_world auth_validate_def Let_def validate_token_def
        validate_refreshToken_def js_or_def js_str_def get_validate_def userinfo_attempt_def
        refreshTokens_def sim_env_def sim_get_def sim_post_def sim_redis_get_def store_get_def
        bearer_def cacheKey_def res_defs status_of_def AT2_def)
  show ?thesis
    using cache_hit_skips_provider [OF 1 _ 2 _ 3, of cfg0] 4 5 by simp
qed

text \<open>
  C2 at the request \<^verbatim>\<open>GET /auth/validate\<close> with an access token the provider accepts.
  With the cache reachable and empty the answer is 200 with the identity. With the cache
  unreachable the lookup rejects outside any \<^verbatim>\<open>try\<close> and the handler sends no answer.
  With a cache that answers the lookup and rejects the write, the provider has accepted
  the token and the answer is 401 \<^verbatim>\<open>{isAuthenticated: false}\<close>.
\<close>

theorem cache_unavailable_changes_outcome:
  "status_of (auth_validate cfg0 (sim_env cfg0) world2 get_validate) = Some 200 \<and>
   body_of (auth_validate cfg0 (sim_env cfg0) world2 get_validate) = Some (authenticated u1) \<and>
   auth_validate cfg0 (sim_env cfg0) (world2\<lparr>sim_redis_up := False\<rparr>) get_validate =
     (Inl (RedisRejected RedisUnavailable), [RedisGet ''userinfo:AT1''],
      world2\<lparr>sim_redis_up := False\<rparr>) \<and>
   fst (axios_get (no_set_env cfg0) world2 (oidc_endpoint cfg0 ''userinfo'') (bearer ''AT1'')) =
     Inr u1 \<and>
   status_of (auth_validate cfg0 (no_set_env cfg0) world2 get_validate) = Some 401 \<and>
   body_of (auth_validate cfg0 (no_set_env cfg0) world2 get_validate) =
     Some (JObj [(''isAuthenticated'', JBool False)])"
  by (simp add: auth_validate_def Let_def validate_token_def validate_refreshToken_def js_or_def
      js_str_def get_validate_def userinfo_attempt_def sim_defs bearer_def cacheKey_def res_defs
      status_of_def body_of_def not_authenticated_def)

end
